theory Spec2Isabelle
  imports Main "HOL-Library.Multiset" "HOL-Library.Product_Lexorder"
begin

section \<open>Values of the Python runtime that app.py computes with\<close>

text \<open>
  The development embeds the request handlers of \<^verbatim>\<open>src/app.py\<close> (MiniCash, a Flask
  application over a relational store) as functions from the stored state and the request to
  the new stored state, the flashed messages and the response.

  Strings are lists of 8-bit characters read as the code points U+0000 to U+00FF. Exceptions
  are values of the type \<open>error\<close>; a handler that lets one escape answers with a server error
  and leaves the stored state as it was (the open database transaction is rolled back).
\<close>

datatype error =
    InvalidOperation   \<comment> \<open>decimal.InvalidOperation (with its subclass ConversionSyntax)\<close>
  | TypeError
  | ValueError
  | OverflowError
  | AttributeError
  | DataError          \<comment> \<open>raised by the database driver at commit\<close>

subsection \<open>Characters\<close>

definition is_digit :: "char \<Rightarrow> bool" where
  "is_digit c = (c \<in> set ''0123456789'')"

definition digit_val :: "char \<Rightarrow> nat" where
  "digit_val c =
     (case map_of (zip ''0123456789'' [0, 1, 2, 3, 4, 5, 6, 7, 8, 9]) c of
        Some v \<Rightarrow> v
      | None \<Rightarrow> 0)"

text \<open>The characters below U+0100 that \<^verbatim>\<open>str.isspace\<close> accepts.\<close>

definition is_space :: "char \<Rightarrow> bool" where
  "is_space c =
     (c \<in> set [CHR 0x09, CHR 0x0A, CHR 0x0B, CHR 0x0C, CHR 0x0D, CHR 0x1C, CHR 0x1D,
                CHR 0x1E, CHR 0x1F, CHR 0x20, CHR 0x85, CHR 0xA0])"

definition to_lower :: "char \<Rightarrow> char" where
  "to_lower c =
     (case map_of (zip ''ABCDEFGHIJKLMNOPQRSTUVWXYZ'' ''abcdefghijklmnopqrstuvwxyz'') c of
        Some l \<Rightarrow> l
      | None \<Rightarrow> c)"

text \<open>\<^verbatim>\<open>int(ds)\<close> for a string of decimal digits, most significant digit first.\<close>

definition nat_of_digits :: "string \<Rightarrow> nat" where
  "nat_of_digits ds = foldl (\<lambda>a c. 10 * a + digit_val c) 0 ds"

text \<open>\<^verbatim>\<open>s.strip()\<close>, \<^verbatim>\<open>s.replace(a, "")\<close> and \<^verbatim>\<open>s.replace(a, b)\<close> for one-character
  \<^verbatim>\<open>a\<close> and \<^verbatim>\<open>b\<close>.\<close>

definition py_strip :: "string \<Rightarrow> string" where
  "py_strip s = rev (dropWhile is_space (rev (dropWhile is_space s)))"

definition str_remove :: "char \<Rightarrow> string \<Rightarrow> string" where
  "str_remove a s = filter (\<lambda>c. c \<noteq> a) s"

definition str_replace :: "char \<Rightarrow> char \<Rightarrow> string \<Rightarrow> string" where
  "str_replace a b s = map (\<lambda>c. if c = a then b else c) s"

subsection \<open>decimal.Decimal\<close>

text \<open>
  A \<^verbatim>\<open>Decimal\<close> is a sign, a coefficient and an exponent (the number
  \<open>\<plusminus> coefficient * 10 ^ exponent\<close>), an infinity, or a quiet or signalling NaN with its
  payload. The sign is \<open>True\<close> for negative.
\<close>

datatype decimal =
    Finite bool nat int
  | Infinite bool
  | NaN bool bool nat

definition split_sign :: "string \<Rightarrow> bool \<times> string" where
  "split_sign s =
     (case s of
        [] \<Rightarrow> (False, [])
      | c # r \<Rightarrow>
          if c = CHR ''-'' then (True, r)
          else if c = CHR ''+'' then (False, r)
          else (False, s))"

text \<open>The text after the exponent indicator: an optional sign and at least one digit.\<close>

definition parse_exponent :: "string \<Rightarrow> int option" where
  "parse_exponent s =
     (let (neg, ds) = split_sign s in
      if ds \<noteq> [] \<and> list_all is_digit ds
      then Some (if neg then - int (nat_of_digits ds) else int (nat_of_digits ds))
      else None)"

text \<open>The number of decimal digits of a coefficient; zero has one digit.\<close>

function ndigits :: "nat \<Rightarrow> nat" where
  "ndigits n = (if n < 10 then 1 else Suc (ndigits (n div 10)))"
  by pat_completeness auto
termination
  by (relation "measure id") auto

declare ndigits.simps [simp del]

text \<open>
  The constructor converts exactly or not at all: with coefficient \<open>c\<close> and exponent \<open>e\<close>,
  the adjusted exponent \<open>e + ndigits c - 1\<close> must not exceed the largest exponent
  999999999999999999 of the C implementation (64 bit), and \<open>e\<close> must not lie below its
  smallest exponent of a subnormal, -1999999999999999997; otherwise it raises
  InvalidOperation.
\<close>

definition exponent_in_range :: "nat \<Rightarrow> int \<Rightarrow> bool" where
  "exponent_in_range c e =
     (e + int (ndigits c) - 1 \<le> 999999999999999999 \<and> - 1999999999999999997 \<le> e)"

text \<open>
  The numeric branch of the constructor's grammar: an integer part and an optional
  fractional part with at least one digit between them, then an optional exponent, up to
  the end of the string. Without an exponent part the exponent is minus the number of
  fractional digits, which is in range for every string shorter than 10 ^ 18 digits; longer
  ones, which no machine holds, are not modelled.
\<close>

definition parse_number :: "bool \<Rightarrow> string \<Rightarrow> decimal option" where
  "parse_number neg s =
     (let ip = takeWhile is_digit s;
          r1 = dropWhile is_digit s;
          (fp, r2) =
            (case r1 of
               [] \<Rightarrow> ([], [])
             | c # t \<Rightarrow>
                 if c = CHR ''.'' then (takeWhile is_digit t, dropWhile is_digit t)
                 else ([], r1))
      in if ip = [] \<and> fp = [] then None
         else (case r2 of
                 [] \<Rightarrow> Some (Finite neg (nat_of_digits (ip @ fp)) (- int (length fp)))
               | c # t \<Rightarrow>
                   if to_lower c = CHR ''e''
                   then (case parse_exponent t of
                           None \<Rightarrow> None
                         | Some e \<Rightarrow>
                             if exponent_in_range (nat_of_digits (ip @ fp)) (e - int (length fp))
                             then Some (Finite neg (nat_of_digits (ip @ fp)) (e - int (length fp)))
                             else None)
                   else None))"

text \<open>The other branches: \<^verbatim>\<open>Inf\<close>, \<^verbatim>\<open>Infinity\<close>, \<^verbatim>\<open>NaN\<close> and \<^verbatim>\<open>sNaN\<close> with
  optional payload digits, in any letter case.\<close>

definition parse_special :: "bool \<Rightarrow> string \<Rightarrow> decimal option" where
  "parse_special neg s =
     (let l = map to_lower s in
      if l = ''inf'' \<or> l = ''infinity'' then Some (Infinite neg)
      else if take 3 l = ''nan'' \<and> list_all is_digit (drop 3 l)
        then Some (NaN neg False (nat_of_digits (drop 3 l)))
      else if take 4 l = ''snan'' \<and> list_all is_digit (drop 4 l)
        then Some (NaN neg True (nat_of_digits (drop 4 l)))
      else None)"

text \<open>
  \<^verbatim>\<open>Decimal(s)\<close> for a string: surrounding whitespace is stripped, underscores are
  removed, and the rest must be an optional sign followed by a number or a special value.
  The conversion is exact: the context precision does not apply to the constructor.
\<close>

definition Decimal :: "string \<Rightarrow> error + decimal" where
  "Decimal s =
     (let (neg, body) = split_sign (str_remove (CHR ''_'') (py_strip s)) in
      case parse_number neg body of
        Some d \<Rightarrow> Inr d
      | None \<Rightarrow>
          (case parse_special neg body of
             Some d \<Rightarrow> Inr d
           | None \<Rightarrow> Inl InvalidOperation))"

text \<open>\<^verbatim>\<open>d <= 0\<close>: an ordering comparison with a NaN signals InvalidOperation, which the
  default context traps.\<close>

definition dec_le_zero :: "decimal \<Rightarrow> error + bool" where
  "dec_le_zero d =
     (case d of
        Finite neg c e \<Rightarrow> Inr (neg \<or> c = 0)
      | Infinite neg \<Rightarrow> Inr neg
      | NaN sg sn p \<Rightarrow> Inl InvalidOperation)"

subsection \<open>parse_decimal (app.py, lines 136 to 141)\<close>

text \<open>\<^verbatim>\<open>raw\<close> is \<^verbatim>\<open>request.form.get(...)\<close>: \<open>None\<close> when the field is absent.\<close>

definition parse_decimal :: "string option \<Rightarrow> error + decimal" where
  "parse_decimal raw =
     (case raw of
        None \<Rightarrow> Inl InvalidOperation
      | Some r \<Rightarrow> Decimal (str_replace (CHR '','') (CHR ''.'') (str_remove (CHR '' '') r)))"

text \<open>
  The plain numeric form of a string, as the specification words it: the same characters
  with every space left out and every comma written as a period.
\<close>

fun plain_form :: "string \<Rightarrow> string" where
  "plain_form [] = []"
| "plain_form (c # cs) =
     (if c = CHR '' '' then plain_form cs
      else if c = CHR '','' then CHR ''.'' # plain_form cs
      else c # plain_form cs)"

subsection \<open>Values of a numeric column\<close>

text \<open>
  Every monetary value that the handlers read back from the store comes from a column of
  type \<^verbatim>\<open>Numeric(14, 2)\<close>: it has two fractional digits, and the model writes it as its
  integer number of hundredths (\<open>Fixed\<close>), or it is the NaN that a numeric column can hold
  as well. The sum of two values is exact, and NaN when one of them is NaN; that is SQL's
  \<^verbatim>\<open>SUM\<close> and, before the rounding of the context, Python's addition of the decimals read
  back. In the order of the database NaN equals itself and is greater than every number.
\<close>

datatype numeric = Fixed int | Not_a_number

instantiation numeric :: comm_monoid_add
begin

definition zero_numeric :: numeric where
  "zero_numeric = Fixed 0"

fun plus_numeric :: "numeric \<Rightarrow> numeric \<Rightarrow> numeric" where
  "plus_numeric (Fixed a) (Fixed b) = Fixed (a + b)"
| "plus_numeric (Fixed a) Not_a_number = Not_a_number"
| "plus_numeric Not_a_number y = Not_a_number"

instance
proof
  fix u v w :: numeric
  show "u + v + w = u + (v + w)"
    by (cases u; cases v; cases w; simp)
  show "u + v = v + u"
    by (cases u; cases v; simp)
  show "0 + u = u"
    unfolding zero_numeric_def by (cases u; simp)
qed

end

instantiation numeric :: minus
begin

fun minus_numeric :: "numeric \<Rightarrow> numeric \<Rightarrow> numeric" where
  "minus_numeric (Fixed a) (Fixed b) = Fixed (a - b)"
| "minus_numeric (Fixed a) Not_a_number = Not_a_number"
| "minus_numeric Not_a_number y = Not_a_number"

instance ..

end

instantiation numeric :: linorder
begin

fun less_eq_numeric :: "numeric \<Rightarrow> numeric \<Rightarrow> bool" where
  "less_eq_numeric (Fixed a) (Fixed b) = (a \<le> b)"
| "less_eq_numeric (Fixed a) Not_a_number = True"
| "less_eq_numeric Not_a_number (Fixed b) = False"
| "less_eq_numeric Not_a_number Not_a_number = True"

definition less_numeric :: "numeric \<Rightarrow> numeric \<Rightarrow> bool" where
  "less_numeric x y = (x \<le> y \<and> \<not> y \<le> x)"

instance
proof
  fix x y z :: numeric
  show "(x < y) = (x \<le> y \<and> \<not> y \<le> x)" by (simp add: less_numeric_def)
  show "x \<le> x" by (cases x) simp_all
  show "x \<le> y \<Longrightarrow> y \<le> z \<Longrightarrow> x \<le> z" by (cases x; cases y; cases z) simp_all
  show "x \<le> y \<Longrightarrow> y \<le> x \<Longrightarrow> x = y" by (cases x; cases y) simp_all
  show "x \<le> y \<or> y \<le> x" by (cases x; cases y) auto
qed

end

subsection \<open>Decimal arithmetic under the default context\<close>

text \<open>
  Python adds and subtracts two decimals exactly and then rounds the result to the precision
  of the context, 28 significant digits, half to even; a quiet NaN passes through. The
  coefficient of a value in hundredths is its absolute value.
\<close>

definition round_half_even :: "nat \<Rightarrow> nat \<Rightarrow> nat" where
  "round_half_even c p =
     (let q = c div p; r = c mod p in
      if p < 2 * r \<or> (2 * r = p \<and> odd q) then q + 1 else q)"

definition round_to_prec :: "int \<Rightarrow> int" where
  "round_to_prec v =
     (let a = nat \<bar>v\<bar>; k = ndigits a - 28 in
      if k = 0 then v else sgn v * int (round_half_even a (10 ^ k) * 10 ^ k))"

definition ctx_round :: "numeric \<Rightarrow> numeric" where
  "ctx_round x = (case x of Fixed v \<Rightarrow> Fixed (round_to_prec v) | Not_a_number \<Rightarrow> Not_a_number)"

definition dec_add :: "numeric \<Rightarrow> numeric \<Rightarrow> numeric" where
  "dec_add a b = ctx_round (a + b)"

definition dec_sub :: "numeric \<Rightarrow> numeric \<Rightarrow> numeric" where
  "dec_sub a b = ctx_round (a - b)"

text \<open>\<^verbatim>\<open>x or d\<close> for a decimal \<^verbatim>\<open>x\<close>, which is false exactly when it is zero (a NaN
  is true).\<close>

definition py_or :: "numeric \<Rightarrow> numeric \<Rightarrow> numeric" where
  "py_or x d = (if x = 0 then d else x)"

subsection \<open>int(s)\<close>

text \<open>Decimal digits with single underscores allowed between them.\<close>

fun digits_us :: "string \<Rightarrow> bool" where
  "digits_us [] = False"
| "digits_us [c] = is_digit c"
| "digits_us (c # d # r) =
     (is_digit c \<and> (if d = CHR ''_'' then digits_us r else digits_us (d # r)))"

text \<open>The whitespace that \<^verbatim>\<open>int\<close> skips around the literal: of the characters below
  U+0100 that \<^verbatim>\<open>str.isspace\<close> accepts, all but U+001C to U+001F.\<close>

definition is_int_space :: "char \<Rightarrow> bool" where
  "is_int_space c =
     (c \<in> set [CHR 0x09, CHR 0x0A, CHR 0x0B, CHR 0x0C, CHR 0x0D, CHR 0x20, CHR 0x85, CHR 0xA0])"

definition int_strip :: "string \<Rightarrow> string" where
  "int_strip s = rev (dropWhile is_int_space (rev (dropWhile is_int_space s)))"

text \<open>\<^verbatim>\<open>int(x)\<close> for a form field: TypeError for an absent field, ValueError for a
  string that is not a decimal integer literal, and ValueError as well for a literal of
  more than 4300 digits (the interpreter's default limit; underscores and the sign do not
  count).\<close>

definition py_int :: "string option \<Rightarrow> error + int" where
  "py_int x =
     (case x of
        None \<Rightarrow> Inl TypeError
      | Some s \<Rightarrow>
          (let (neg, body) = split_sign (int_strip s) in
           if digits_us body \<and> length (str_remove (CHR ''_'') body) \<le> 4300
           then (let n = int (nat_of_digits (str_remove (CHR ''_'') body)) in
                 Inr (if neg then - n else n))
           else Inl ValueError))"

subsection \<open>datetime.date and datetime.datetime\<close>

record date =
  d_year :: int
  d_month :: int
  d_day :: int

definition is_leap :: "int \<Rightarrow> bool" where
  "is_leap y = (y mod 4 = 0 \<and> (y mod 100 \<noteq> 0 \<or> y mod 400 = 0))"

definition days_in_month :: "int \<Rightarrow> int \<Rightarrow> int" where
  "days_in_month y m =
     (if m = 2 then (if is_leap y then 29 else 28)
      else if m = 4 \<or> m = 6 \<or> m = 9 \<or> m = 11 then 30
      else 31)"

definition valid_date :: "date \<Rightarrow> bool" where
  "valid_date d =
     (1 \<le> d_year d \<and> d_year d \<le> 9999 \<and> 1 \<le> d_month d \<and> d_month d \<le> 12
      \<and> 1 \<le> d_day d \<and> d_day d \<le> days_in_month (d_year d) (d_month d))"

text \<open>\<^verbatim>\<open>date.toordinal()\<close>: the number of days from 1 January of year 1, which is day 1.\<close>

definition days_before_year :: "int \<Rightarrow> int" where
  "days_before_year y = (y - 1) * 365 + (y - 1) div 4 - (y - 1) div 100 + (y - 1) div 400"

definition days_before_month :: "int \<Rightarrow> int \<Rightarrow> int" where
  "days_before_month y m = sum_list (map (days_in_month y) [1..m - 1])"

definition toordinal :: "date \<Rightarrow> int" where
  "toordinal d = days_before_year (d_year d) + days_before_month (d_year d) (d_month d) + d_day d"

definition date_min :: date where
  "date_min = \<lparr>d_year = 1, d_month = 1, d_day = 1\<rparr>"

definition prev_day :: "date \<Rightarrow> date" where
  "prev_day d =
     (if 1 < d_day d then d\<lparr>d_day := d_day d - 1\<rparr>
      else if 1 < d_month d
        then d\<lparr>d_month := d_month d - 1, d_day := days_in_month (d_year d) (d_month d - 1)\<rparr>
      else \<lparr>d_year = d_year d - 1, d_month = 12, d_day = 31\<rparr>)"

text \<open>\<^verbatim>\<open>d - timedelta(days=n)\<close>: OverflowError when the result would lie before
  \<^verbatim>\<open>date.min\<close>.\<close>

fun date_sub_days :: "date \<Rightarrow> nat \<Rightarrow> error + date" where
  "date_sub_days d 0 = Inr d"
| "date_sub_days d (Suc n) =
     (if d = date_min then Inl OverflowError else date_sub_days (prev_day d) n)"

text \<open>A naive \<^verbatim>\<open>datetime\<close>: a date and the microsecond of the day. Two are compared
  field by field, which \<open>dt_key\<close> with the lexicographic order on tuples expresses.\<close>

record datetime =
  dt_date :: date
  dt_time :: nat

definition dt_key :: "datetime \<Rightarrow> int \<times> int \<times> int \<times> nat" where
  "dt_key t = (d_year (dt_date t), d_month (dt_date t), d_day (dt_date t), dt_time t)"

definition dt_ge :: "datetime \<Rightarrow> datetime \<Rightarrow> bool" where
  "dt_ge a b = (dt_key b \<le> dt_key a)"

text \<open>
  \<^verbatim>\<open>datetime.strptime(s, "%Y-%m-%d")\<close>, with \<open>None\<close> for ValueError: four digits, a
  hyphen, a month of one or two digits from 1 to 12, a hyphen, a day of one or two digits
  from 1 to 31 (or a space and one digit), and nothing else; the three numbers must be a
  date of the calendar. The time of the result is midnight.
\<close>

definition month_text :: "string \<Rightarrow> bool" where
  "month_text ms =
     (list_all is_digit ms \<and> (length ms = 1 \<or> length ms = 2)
      \<and> 1 \<le> nat_of_digits ms \<and> nat_of_digits ms \<le> 12)"

definition day_text :: "string \<Rightarrow> bool" where
  "day_text ds =
     ((list_all is_digit ds \<and> (length ds = 1 \<or> length ds = 2)
       \<and> 1 \<le> nat_of_digits ds \<and> nat_of_digits ds \<le> 31)
      \<or> (length ds = 2 \<and> hd ds = CHR '' '' \<and> is_digit (last ds) \<and> last ds \<noteq> CHR ''0''))"

definition strptime_ymd :: "string \<Rightarrow> datetime option" where
  "strptime_ymd s =
     (let ys = take 4 s;
          r1 = drop 4 s;
          ms = takeWhile (\<lambda>c. c \<noteq> CHR ''-'') (drop 1 r1);
          r2 = dropWhile (\<lambda>c. c \<noteq> CHR ''-'') (drop 1 r1);
          ds = drop 1 r2;
          d = \<lparr>d_year = int (nat_of_digits ys), d_month = int (nat_of_digits ms),
               d_day = int (nat_of_digits (str_remove (CHR '' '') ds))\<rparr>
      in if length ys = 4 \<and> list_all is_digit ys \<and> take 1 r1 = ''-'' \<and> month_text ms
            \<and> take 1 r2 = ''-'' \<and> day_text ds \<and> valid_date d
         then Some \<lparr>dt_date = d, dt_time = 0\<rparr>
         else None)"

section \<open>The stored state (app.py, lines 52 to 101)\<close>

text \<open>
  A monetary column is \<^verbatim>\<open>Numeric(14, 2)\<close>: a fixed-point number with two fractional
  digits and at most twelve integer digits, "up to 999 999 999 999.99" in the words of the
  source. The configured store is PostgreSQL behind the psycopg2 driver. The driver writes
  a finite decimal as its literal and every other one as NaN. The database refuses a literal
  with more than 16383 fractional digits or with an exponent of 1073741823 or more; it
  rounds excess fractional digits half away from zero, and refuses a value that then needs
  more than twelve integer digits. A refusal is the error the commit raises.
\<close>

definition numeric_14_2 :: "decimal \<Rightarrow> error + numeric" where
  "numeric_14_2 d =
     (case d of
        Finite neg c e \<Rightarrow>
          if 16383 < - e \<or> 1073741823 \<le> e + int (ndigits c) - 1 then Inl DataError
          else
            (let m = (if - 2 \<le> e then c * 10 ^ nat (e + 2)
                      else (let p = 10 ^ nat (- e - 2) in
                            c div p + (if p \<le> 2 * (c mod p) then 1 else 0)))
             in if m < 10 ^ 14 then Inr (Fixed (if neg then - int m else int m))
                else Inl DataError)
      | Infinite neg \<Rightarrow> Inr Not_a_number
      | NaN sg sn p \<Rightarrow> Inr Not_a_number)"

text \<open>What such a column can hold: NaN, or a number below 10 ^ 12 in magnitude.\<close>

definition in_column :: "numeric \<Rightarrow> bool" where
  "in_column x = (case x of Fixed v \<Rightarrow> \<bar>v\<bar> < 10 ^ 14 | Not_a_number \<Rightarrow> True)"

text \<open>\<open>within B x\<close>: the value is NaN or at most \<open>B\<close> hundredths in magnitude.\<close>

definition within :: "int \<Rightarrow> numeric \<Rightarrow> bool" where
  "within B x = (case x of Fixed v \<Rightarrow> \<bar>v\<bar> \<le> B | Not_a_number \<Rightarrow> True)"

record user =
  u_id :: int
  u_name :: string
  u_email :: string
  u_password_hash :: string
  u_initial_balance :: "numeric option"

record category =
  c_id :: int
  c_name :: string
  c_type :: string
  c_user_id :: int

record transaction =
  t_id :: int
  t_user_id :: int
  t_category_id :: int
  t_amount :: numeric
  t_type :: string
  t_description :: "string option"
  t_created_at :: datetime

text \<open>The three tables, in the order of their rows, and the sequence that numbers the
  transactions (\<open>tx_seq\<close> is the last identifier handed out).\<close>

record db =
  users :: "user list"
  categories :: "category list"
  transactions :: "transaction list"
  tx_seq :: int

text \<open>The largest value of an \<^verbatim>\<open>Integer\<close> primary key.\<close>

definition int4_max :: int where
  "int4_max = 2147483647"

text \<open>
  What the schema guarantees of every stored state: primary keys are distinct, transaction
  identifiers are positive, come from the sequence and lie within the integer range, and
  monetary values are within the range of their column.
\<close>

definition wf_db :: "db \<Rightarrow> bool" where
  "wf_db s =
     (distinct (map u_id (users s)) \<and> distinct (map c_id (categories s))
      \<and> distinct (map t_id (transactions s))
      \<and> list_all (\<lambda>t. 1 \<le> t_id t \<and> t_id t \<le> tx_seq s \<and> in_column (t_amount t)) (transactions s)
      \<and> list_all (\<lambda>u. case u_initial_balance u of None \<Rightarrow> True | Some b \<Rightarrow> in_column b) (users s)
      \<and> 0 \<le> tx_seq s \<and> tx_seq s \<le> int4_max)"

section \<open>Requests and responses\<close>

datatype http_method = GET | POST

datatype endpoint = Login | Setup_balance | Dashboard | Edit_transaction int

text \<open>The messages the handlers flash (the source's texts are Russian): log in first,
  invalid balance, initial balance saved, invalid amount, no category chosen, category not
  found, operation added, operation updated, operation deleted.\<close>

datatype flash =
    Please_log_in
  | Bad_balance
  | Balance_saved
  | Bad_amount
  | No_category
  | Category_not_found
  | Tx_added
  | Tx_updated
  | Tx_deleted

text \<open>The values the dashboard hands to its template. The two chart series, which the
  source converts to binary floating point for display, are kept as the exact sums they are
  converted from (\<open>p_expense_rows\<close>, \<open>p_total_income\<close>, \<open>p_total_expense\<close>).\<close>

record dashboard_page =
  p_balance :: numeric
  p_total_income :: numeric
  p_total_expense :: numeric
  p_transactions :: "transaction list"
  p_top_expenses :: "transaction list"
  p_expense_rows :: "(string \<times> numeric) list"
  p_expense_categories :: "category list"
  p_income_categories :: "category list"
  p_current_period :: string
  p_today :: date

datatype response =
    Redirect endpoint
  | Not_found
  | Server_error error
  | Setup_balance_page
  | Dashboard_page dashboard_page
  | Edit_page transaction "category list" date

type_synonym outcome = "db \<times> flash list \<times> response"

text \<open>The fields of the add and edit forms, \<open>None\<close> for a field the request lacks.\<close>

record tx_form =
  f_type :: "string option"
  f_amount :: "string option"
  f_category_id :: "string option"
  f_description :: "string option"
  f_date :: "string option"

text \<open>\<^verbatim>\<open>current_user\<close>: the row of the user whose identifier the session holds, and
  what \<^verbatim>\<open>@login_required\<close> answers when there is none.\<close>

definition current_user :: "db \<Rightarrow> int option \<Rightarrow> user option" where
  "current_user s sess =
     (case sess of None \<Rightarrow> None | Some uid \<Rightarrow> find (\<lambda>u. u_id u = uid) (users s))"

definition unauthorized :: "db \<Rightarrow> outcome" where
  "unauthorized s = (s, [Please_log_in], Redirect Login)"

section \<open>The handlers\<close>

subsection \<open>setup_balance (app.py, lines 245 to 266)\<close>

definition setup_balance :: "db \<Rightarrow> int option \<Rightarrow> http_method \<Rightarrow> string option \<Rightarrow> outcome" where
  "setup_balance s sess method form_initial_balance =
     (case current_user s sess of
        None \<Rightarrow> unauthorized s
      | Some u \<Rightarrow>
          if u_initial_balance u \<noteq> None then (s, [], Redirect Dashboard)
          else if method = POST then
            (case parse_decimal form_initial_balance of
               Inl e \<Rightarrow>
                 if e = InvalidOperation \<or> e = TypeError
                 then (s, [Bad_balance], Redirect Setup_balance)
                 else (s, [], Server_error e)
             | Inr amount \<Rightarrow>
                 (case numeric_14_2 amount of
                    Inl e \<Rightarrow> (s, [], Server_error e)
                  | Inr b \<Rightarrow>
                      (s\<lparr>users := map (\<lambda>x. if u_id x = u_id u
                                             then x\<lparr>u_initial_balance := Some b\<rparr> else x) (users s)\<rparr>,
                       [Balance_saved], Redirect Dashboard)))
          else (s, [], Setup_balance_page))"

subsection \<open>dashboard (app.py, lines 268 to 383)\<close>

text \<open>The start of the aggregation window for a period selector (lines 286 to 296).\<close>

definition period_start :: "string \<Rightarrow> date \<Rightarrow> error + date" where
  "period_start period today =
     (if period = ''week'' then date_sub_days today 7
      else if period = ''month'' then Inr (today\<lparr>d_day := 1\<rparr>)
      else if period = ''year'' then Inr (today\<lparr>d_month := 1, d_day := 1\<rparr>)
      else if period = ''all'' then Inr \<lparr>d_year = 1970, d_month = 1, d_day = 1\<rparr>
      else Inr (today\<lparr>d_day := 1\<rparr>))"

text \<open>SQL's \<^verbatim>\<open>SUM\<close> is NULL over no rows; \<^verbatim>\<open>COALESCE\<close> replaces a NULL.\<close>

definition sql_sum :: "numeric list \<Rightarrow> numeric option" where
  "sql_sum xs = (if xs = [] then None else Some (sum_list xs))"

definition coalesce :: "'a option \<Rightarrow> 'a \<Rightarrow> 'a" where
  "coalesce x d = (case x of None \<Rightarrow> d | Some v \<Rightarrow> v)"

text \<open>The query of lines 310 to 318 and 320 to 328, for a transaction type.\<close>

definition total_query :: "db \<Rightarrow> int \<Rightarrow> string \<Rightarrow> datetime \<Rightarrow> numeric" where
  "total_query s uid ty start_dt =
     coalesce (sql_sum (map t_amount
        (filter (\<lambda>t. t_user_id t = uid \<and> t_type t = ty \<and> dt_ge (t_created_at t) start_dt)
           (transactions s)))) 0"

text \<open>The query of lines 334 to 344: expense amounts joined with their category and summed
  by category name.\<close>

definition expense_rows_query :: "db \<Rightarrow> int \<Rightarrow> datetime \<Rightarrow> (string \<times> numeric) list" where
  "expense_rows_query s uid start_dt =
     (let joined = concat (map (\<lambda>t. map (\<lambda>c. (c_name c, t_amount t))
                                      (filter (\<lambda>c. t_category_id t = c_id c) (categories s)))
                     (filter (\<lambda>t. t_user_id t = uid \<and> t_type t = ''expense''
                                   \<and> dt_ge (t_created_at t) start_dt) (transactions s)))
      in map (\<lambda>n. (n, sum_list (map snd (filter (\<lambda>r. fst r = n) joined))))
           (remdups (map fst joined)))"

text \<open>
  \<^verbatim>\<open>ORDER BY ... DESC\<close> is modelled by a stable sort in ascending order that is then
  reversed (amounts in the order of the database, NaN first); the order SQL gives to rows
  with equal keys is not specified, and nothing below depends on it.
\<close>

definition dashboard :: "db \<Rightarrow> int option \<Rightarrow> string option \<Rightarrow> date \<Rightarrow> outcome" where
  "dashboard s sess period_arg today =
     (case current_user s sess of
        None \<Rightarrow> unauthorized s
      | Some u \<Rightarrow>
          (case u_initial_balance u of
             None \<Rightarrow> (s, [], Redirect Setup_balance)
           | Some b \<Rightarrow>
               (let user_id = u_id u;
                    period = (case period_arg of None \<Rightarrow> ''month'' | Some p \<Rightarrow> p)
                in case period_start period today of
                     Inl e \<Rightarrow> (s, [], Server_error e)
                   | Inr start_date \<Rightarrow>
                       (let start_dt = \<lparr>dt_date = start_date, dt_time = 0\<rparr>;
                            base_query = filter (\<lambda>t. t_user_id t = user_id
                                                     \<and> dt_ge (t_created_at t) start_dt) (transactions s);
                            txs = take 50 (rev (sort_key (\<lambda>t. dt_key (t_created_at t)) base_query));
                            total_income = total_query s user_id ''income'' start_dt;
                            total_expense = total_query s user_id ''expense'' start_dt;
                            initial = py_or b 0;
                            balance = dec_sub (dec_add initial (py_or total_income 0))
                                        (py_or total_expense 0);
                            top_expenses = take 5 (rev (sort_key t_amount
                                             (filter (\<lambda>t. t_type t = ''expense'') base_query)))
                        in (s, [], Dashboard_page
                              \<lparr>p_balance = balance,
                               p_total_income = total_income,
                               p_total_expense = total_expense,
                               p_transactions = txs,
                               p_top_expenses = top_expenses,
                               p_expense_rows = expense_rows_query s user_id start_dt,
                               p_expense_categories =
                                 filter (\<lambda>c. c_user_id c = user_id \<and> c_type c = ''expense'') (categories s),
                               p_income_categories =
                                 filter (\<lambda>c. c_user_id c = user_id \<and> c_type c = ''income'') (categories s),
                               p_current_period = period,
                               p_today = today\<rparr>)))))"

subsection \<open>add_transaction (app.py, lines 391 to 444)\<close>

text \<open>The body of the \<^verbatim>\<open>try\<close> block of lines 400 to 403 and 459 to 462.\<close>

definition checked_amount :: "string option \<Rightarrow> error + decimal" where
  "checked_amount amount_raw =
     (case parse_decimal amount_raw of
        Inl e \<Rightarrow> Inl e
      | Inr amount \<Rightarrow>
          (case dec_le_zero amount of
             Inl e \<Rightarrow> Inl e
           | Inr le \<Rightarrow> if le then Inl InvalidOperation else Inr amount))"

text \<open>\<^verbatim>\<open>request.form.get("description", "").strip()\<close> and \<^verbatim>\<open>description or None\<close>.\<close>

definition form_description :: "tx_form \<Rightarrow> string option" where
  "form_description form =
     (let d = py_strip (case f_description form of None \<Rightarrow> [] | Some x \<Rightarrow> x) in
      if d = [] then None else Some d)"

text \<open>
  A string goes to the database as a parameter of the statement, and the driver (psycopg2,
  since its version 2.7) refuses one that contains a NUL character: the query, or the commit
  that would write it, raises ValueError ("A string literal cannot contain NUL (0x00)
  characters"), which no handler catches. A commit writes the columns whose value has
  changed.
\<close>

definition has_nul :: "string \<Rightarrow> bool" where
  "has_nul s = (CHR 0x00 \<in> set s)"

definition sendable :: "string option \<Rightarrow> bool" where
  "sendable x = (case x of None \<Rightarrow> True | Some d \<Rightarrow> \<not> has_nul d)"

text \<open>The date of lines 409 to 415 and 468 to 474, with the handler's default.\<close>

definition form_date :: "tx_form \<Rightarrow> datetime \<Rightarrow> datetime" where
  "form_date form dflt =
     (case f_date form of
        None \<Rightarrow> dflt
      | Some ds \<Rightarrow>
          if ds = [] then dflt
          else (case strptime_ymd ds of None \<Rightarrow> dflt | Some dt \<Rightarrow> dt))"

text \<open>\<open>now\<close> is \<^verbatim>\<open>datetime.utcnow()\<close>. The route accepts POST only.\<close>

definition add_transaction :: "db \<Rightarrow> int option \<Rightarrow> tx_form \<Rightarrow> datetime \<Rightarrow> outcome" where
  "add_transaction s sess form now =
     (case current_user s sess of
        None \<Rightarrow> unauthorized s
      | Some u \<Rightarrow>
          (let type' = (case f_type form of None \<Rightarrow> ''expense'' | Some t \<Rightarrow> t) in
           case checked_amount (f_amount form) of
             Inl e \<Rightarrow>
               if e = InvalidOperation \<or> e = TypeError
               then (s, [Bad_amount], Redirect Dashboard)
               else (s, [], Server_error e)
           | Inr amount \<Rightarrow>
               (case py_int (f_category_id form) of
                  Inl e \<Rightarrow> (s, [No_category], Redirect Dashboard)
                | Inr category_id_int \<Rightarrow>
                    if has_nul type' then (s, [], Server_error ValueError)
                    else
                    (case find (\<lambda>c. c_id c = category_id_int \<and> c_user_id c = u_id u
                                    \<and> c_type c = type') (categories s) of
                       None \<Rightarrow> (s, [Category_not_found], Redirect Dashboard)
                     | Some category \<Rightarrow>
                         if \<not> sendable (form_description form)
                         then (s, [], Server_error ValueError)
                         else
                         (case numeric_14_2 amount of
                            Inl e \<Rightarrow> (s, [], Server_error e)
                          | Inr stored \<Rightarrow>
                              if int4_max \<le> tx_seq s then (s, [], Server_error DataError)
                              else
                                (s\<lparr>transactions := transactions s @
                                     [\<lparr>t_id = tx_seq s + 1,
                                       t_user_id = u_id u,
                                       t_category_id = c_id category,
                                       t_amount = stored,
                                       t_type = type',
                                       t_description = form_description form,
                                       t_created_at = form_date form now\<rparr>],
                                   tx_seq := tx_seq s + 1\<rparr>,
                                 [Tx_added], Redirect Dashboard))))))"

subsection \<open>edit_transaction (app.py, lines 447 to 513)\<close>

definition edit_transaction ::
  "db \<Rightarrow> int option \<Rightarrow> int \<Rightarrow> http_method \<Rightarrow> tx_form \<Rightarrow> outcome" where
  "edit_transaction s sess tx_id method form =
     (case current_user s sess of
        None \<Rightarrow> unauthorized s
      | Some u \<Rightarrow>
          (case find (\<lambda>t. t_id t = tx_id \<and> t_user_id t = u_id u) (transactions s) of
             None \<Rightarrow> (s, [], Not_found)
           | Some tx \<Rightarrow>
               if method = POST then
                 (let type' = (case f_type form of None \<Rightarrow> t_type tx | Some t \<Rightarrow> t) in
                  case checked_amount (f_amount form) of
                    Inl e \<Rightarrow>
                      if e = InvalidOperation \<or> e = TypeError
                      then (s, [Bad_amount], Redirect (Edit_transaction (t_id tx)))
                      else (s, [], Server_error e)
                  | Inr amount \<Rightarrow>
                      (case py_int (f_category_id form) of
                         Inl e \<Rightarrow> (s, [No_category], Redirect (Edit_transaction (t_id tx)))
                       | Inr category_id_int \<Rightarrow>
                           if has_nul type' then (s, [], Server_error ValueError)
                           else
                           (case find (\<lambda>c. c_id c = category_id_int \<and> c_user_id c = u_id u
                                           \<and> c_type c = type') (categories s) of
                              None \<Rightarrow>
                                (s, [Category_not_found], Redirect (Edit_transaction (t_id tx)))
                            | Some category \<Rightarrow>
                                if form_description form \<noteq> t_description tx
                                   \<and> \<not> sendable (form_description form)
                                then (s, [], Server_error ValueError)
                                else
                                (case numeric_14_2 amount of
                                   Inl e \<Rightarrow> (s, [], Server_error e)
                                 | Inr stored \<Rightarrow>
                                     (s\<lparr>transactions :=
                                          map (\<lambda>t. if t_id t = t_id tx
                                                    then t\<lparr>t_type := type',
                                                           t_amount := stored,
                                                           t_category_id := c_id category,
                                                           t_description := form_description form,
                                                           t_created_at :=
                                                             form_date form (t_created_at tx)\<rparr>
                                                    else t) (transactions s)\<rparr>,
                                      [Tx_updated], Redirect Dashboard)))))
               else
                 (case find (\<lambda>c. c_id c = t_category_id tx) (categories s) of
                    None \<Rightarrow> (s, [], Server_error AttributeError)
                  | Some c \<Rightarrow>
                      (s, [],
                       Edit_page tx
                         (filter (\<lambda>x. c_user_id x = u_id u
                                       \<and> c_type x = (if c_type c = ''expense'' then ''expense''
                                                      else ''income'')) (categories s))
                         (dt_date (t_created_at tx))))))"

subsection \<open>delete_transaction (app.py, lines 515 to 522)\<close>

text \<open>The route accepts POST only.\<close>

definition delete_transaction :: "db \<Rightarrow> int option \<Rightarrow> int \<Rightarrow> outcome" where
  "delete_transaction s sess tx_id =
     (case current_user s sess of
        None \<Rightarrow> unauthorized s
      | Some u \<Rightarrow>
          (case find (\<lambda>t. t_id t = tx_id \<and> t_user_id t = u_id u) (transactions s) of
             None \<Rightarrow> (s, [], Not_found)
           | Some tx \<Rightarrow>
               (s\<lparr>transactions := filter (\<lambda>t. t_id t \<noteq> t_id tx) (transactions s)\<rparr>,
                [Tx_deleted], Redirect Dashboard)))"

subsection \<open>Requests in sequence\<close>

datatype request =
    Req_setup_balance "int option" http_method "string option"
  | Req_dashboard "int option" "string option" date
  | Req_add "int option" tx_form datetime
  | Req_edit "int option" int http_method tx_form
  | Req_delete "int option" int

fun handle :: "db \<Rightarrow> request \<Rightarrow> outcome" where
  "handle s (Req_setup_balance sess m f) = setup_balance s sess m f"
| "handle s (Req_dashboard sess p today) = dashboard s sess p today"
| "handle s (Req_add sess form now) = add_transaction s sess form now"
| "handle s (Req_edit sess i m form) = edit_transaction s sess i m form"
| "handle s (Req_delete sess i) = delete_transaction s sess i"

fun run :: "db \<Rightarrow> request list \<Rightarrow> db" where
  "run s [] = s"
| "run s (r # rs) = run (fst (handle s r)) rs"

text \<open>The initial balance stored for a user identifier, \<open>None\<close> while it is NULL (or no
  such user exists).\<close>

definition initial_balance_of :: "db \<Rightarrow> int \<Rightarrow> numeric option" where
  "initial_balance_of s uid =
     (case find (\<lambda>u. u_id u = uid) (users s) of
        None \<Rightarrow> None
      | Some u \<Rightarrow> u_initial_balance u)"

section \<open>The totals in the words of the specification\<close>

text \<open>
  The specification's total for a user, a transaction type and the start date of a period:
  the sum of the amounts of the user's transactions of that type whose timestamp is on or
  after the start date, which is zero when there is no such transaction.
\<close>

definition on_or_after :: "date \<Rightarrow> transaction \<Rightarrow> bool" where
  "on_or_after start t =
     ((d_year start, d_month start, d_day start)
        \<le> (d_year (dt_date (t_created_at t)), d_month (dt_date (t_created_at t)),
            d_day (dt_date (t_created_at t))))"

definition spec_total :: "db \<Rightarrow> int \<Rightarrow> string \<Rightarrow> date \<Rightarrow> numeric" where
  "spec_total s uid ty start =
     (\<Sum>t\<leftarrow>filter (\<lambda>t. t_user_id t = uid \<and> t_type t = ty \<and> on_or_after start t)
            (transactions s). t_amount t)"

section \<open>A stored state to evaluate the handlers on\<close>

text \<open>
  The scenario of the specification: a user with initial balance 1000.00, an expense of
  200.00 and an income of 500.00 in March 2024; beside it a second user who has not set a
  balance yet and owns one expense of 7.00. (Category names are placeholders.)
\<close>

definition march :: "int \<Rightarrow> datetime" where
  "march d = \<lparr>dt_date = \<lparr>d_year = 2024, d_month = 3, d_day = d\<rparr>, dt_time = 0\<rparr>"

definition example_db :: db where
  "example_db =
     \<lparr>users =
        [\<lparr>u_id = 1, u_name = ''ann'', u_email = ''ann@example.org'', u_password_hash = ''x'',
          u_initial_balance = Some (Fixed 100000)\<rparr>,
         \<lparr>u_id = 2, u_name = ''bob'', u_email = ''bob@example.org'', u_password_hash = ''y'',
          u_initial_balance = None\<rparr>],
      categories =
        [\<lparr>c_id = 1, c_name = ''food'', c_type = ''expense'', c_user_id = 1\<rparr>,
         \<lparr>c_id = 2, c_name = ''salary'', c_type = ''income'', c_user_id = 1\<rparr>,
         \<lparr>c_id = 3, c_name = ''food'', c_type = ''expense'', c_user_id = 2\<rparr>],
      transactions =
        [\<lparr>t_id = 1, t_user_id = 1, t_category_id = 1, t_amount = Fixed 20000, t_type = ''expense'',
          t_description = None, t_created_at = march 2\<rparr>,
         \<lparr>t_id = 2, t_user_id = 1, t_category_id = 2, t_amount = Fixed 50000, t_type = ''income'',
          t_description = None, t_created_at = march 3\<rparr>,
         \<lparr>t_id = 3, t_user_id = 2, t_category_id = 3, t_amount = Fixed 700, t_type = ''expense'',
          t_description = None, t_created_at = march 1\<rparr>],
      tx_seq = 3\<rparr>"

text \<open>The same state after the first user has added an expense of 15.00 dated 31 December
  1969, and the form that adds it.\<close>

definition early_form :: tx_form where
  "early_form =
     \<lparr>f_type = Some ''expense'', f_amount = Some ''15'', f_category_id = Some ''1'',
      f_description = None, f_date = Some ''1969-12-31''\<rparr>"

definition early_db :: db where
  "early_db =
     example_db\<lparr>transactions := transactions example_db @
        [\<lparr>t_id = 4, t_user_id = 1, t_category_id = 1, t_amount = Fixed 1500,
          t_type = ''expense'', t_description = None,
          t_created_at = \<lparr>dt_date = \<lparr>d_year = 1969, d_month = 12, d_day = 31\<rparr>,
                          dt_time = 0\<rparr>\<rparr>],
       tx_seq := 4\<rparr>"

definition example_form :: "string \<Rightarrow> string \<Rightarrow> string \<Rightarrow> tx_form" where
  "example_form ty amount category =
     \<lparr>f_type = Some ty, f_amount = Some amount, f_category_id = Some category,
      f_description = None, f_date = None\<rparr>"

text \<open>A state in which the first user owns seven expenses, of 1.00 to 7.00, stored in no
  particular order.\<close>

definition expenses_db :: db where
  "expenses_db =
     example_db\<lparr>transactions :=
        map (\<lambda>n. \<lparr>t_id = n, t_user_id = 1, t_category_id = 1, t_amount = Fixed (100 * n),
                   t_type = ''expense'', t_description = None, t_created_at = march n\<rparr>)
          [3, 7, 1, 5, 2, 6, 4],
       tx_seq := 7\<rparr>"

section \<open>Properties of parse_decimal\<close>

lemma is_digit_not_sep:
  "is_digit c \<Longrightarrow> c \<noteq> CHR ''.'' \<and> c \<noteq> CHR ''_'' \<and> c \<noteq> CHR ''-'' \<and> c \<noteq> CHR ''+'' \<and> \<not> is_space c"
  by (auto simp: is_digit_def is_space_def)

lemma clean_plain_form:
  "str_replace (CHR '','') (CHR ''.'') (str_remove (CHR '' '') r) = plain_form r"
  by (induction r) (simp_all add: str_replace_def str_remove_def)

lemma plain_form_idem: "plain_form (plain_form r) = plain_form r"
  by (induction r) simp_all

lemma plain_form_no_separator:
  "CHR '' '' \<notin> set (plain_form r) \<and> CHR '','' \<notin> set (plain_form r)"
  by (induction r) simp_all

lemma py_strip_digits_ends:
  assumes "s \<noteq> []" "\<not> is_space (hd s)" "\<not> is_space (last s)"
  shows "py_strip s = s"
proof -
  from assms have d: "dropWhile is_space s = s" by (cases s) auto
  from assms(1) obtain x xs where r: "rev s = x # xs" by (cases "rev s") auto
  with assms(1) have "x = last s" by (metis hd_rev list.sel(1))
  with assms(3) have "dropWhile is_space (x # xs) = x # xs" by simp
  then have "dropWhile is_space (rev s) = rev s" by (simp only: r)
  with d show ?thesis by (simp add: py_strip_def)
qed

lemma Decimal_plain_exact:
  assumes ip: "list_all is_digit ip" "ip \<noteq> []" and fp: "list_all is_digit fp"
  shows "Decimal (ip @ CHR ''.'' # fp) = Inr (Finite False (nat_of_digits (ip @ fp)) (- int (length fp)))"
proof -
  let ?s = "ip @ CHR ''.'' # fp"
  from ip obtain c t where ipc: "ip = c # t" by (cases ip) auto
  with ip have c: "is_digit c" by simp
  have hd: "\<not> is_space (hd ?s)" using c ipc is_digit_not_sep by simp
  have "last ?s = (if fp = [] then CHR ''.'' else last fp)" by simp
  moreover have "fp \<noteq> [] \<Longrightarrow> is_digit (last fp)"
    using fp by (metis last_in_set list_all_iff)
  ultimately have lst: "\<not> is_space (last ?s)"
    using is_digit_not_sep by (auto simp: is_space_def)
  have strip: "py_strip ?s = ?s" using hd lst by (intro py_strip_digits_ends) simp_all
  have "\<forall>x\<in>set ?s. x \<noteq> CHR ''_''"
    using ip fp is_digit_not_sep by (auto simp: list_all_iff)
  then have rem: "str_remove (CHR ''_'') ?s = ?s"
    unfolding str_remove_def by (intro filter_True)
  have sgn: "split_sign ?s = (False, ?s)"
    using c ipc is_digit_not_sep by (auto simp: split_sign_def)
  have tw: "takeWhile is_digit ?s = ip" and dw: "dropWhile is_digit ?s = CHR ''.'' # fp"
    using ip by (simp_all add: list_all_iff is_digit_def takeWhile_append2 dropWhile_append2)
  have tw2: "takeWhile is_digit fp = fp" and dw2: "dropWhile is_digit fp = []"
    using fp by (simp_all add: list_all_iff)
  have "parse_number False ?s = Some (Finite False (nat_of_digits (ip @ fp)) (- int (length fp)))"
    using ip(2) unfolding parse_number_def tw dw by (simp add: tw2 dw2)
  then show ?thesis by (simp add: Decimal_def strip rem sgn)
qed

text \<open>
  C9. A string with spaces as grouping separators and a comma as decimal separator parses
  to the same result as its plain form (spaces left out, comma written as a period), which
  contains neither separator; and when the plain form is an integer part, a period and a
  fractional part, the result is the decimal with exactly these digits as coefficient and
  the number of fractional digits as negated exponent, with no rounding. The example of the
  specification: "1 234,56" and "1234.56" both give 123456 * 10 ^ -2.
\<close>

theorem parse_decimal_separators:
  "parse_decimal (Some raw) = parse_decimal (Some (plain_form raw))
   \<and> CHR '' '' \<notin> set (plain_form raw) \<and> CHR '','' \<notin> set (plain_form raw)
   \<and> (list_all is_digit ip \<and> ip \<noteq> [] \<and> list_all is_digit fp \<and> plain_form raw = ip @ CHR ''.'' # fp
        \<longrightarrow> parse_decimal (Some raw) = Inr (Finite False (nat_of_digits (ip @ fp)) (- int (length fp))))
   \<and> parse_decimal (Some ''1 234,56'') = Inr (Finite False 123456 (- 2))
   \<and> parse_decimal (Some ''1234.56'') = Inr (Finite False 123456 (- 2))"
proof -
  have a: "parse_decimal (Some raw) = parse_decimal (Some (plain_form raw))"
    by (simp add: parse_decimal_def clean_plain_form plain_form_idem)
  have b: "list_all is_digit ip \<and> ip \<noteq> [] \<and> list_all is_digit fp \<and> plain_form raw = ip @ CHR ''.'' # fp
        \<longrightarrow> parse_decimal (Some raw) = Inr (Finite False (nat_of_digits (ip @ fp)) (- int (length fp)))"
    using Decimal_plain_exact [of ip fp] by (simp add: parse_decimal_def clean_plain_form)
  have d: "list_all is_digit ''1234''" "list_all is_digit ''56''"
    by (simp_all add: is_digit_def)
  have v: "nat_of_digits (''1234'' @ ''56'') = 123456"
    by (simp add: nat_of_digits_def digit_val_def)
  have e1: "parse_decimal (Some ''1234.56'') = Inr (Finite False 123456 (- 2))"
    using Decimal_plain_exact [OF d(1) _ d(2)] v
    by (simp add: parse_decimal_def str_replace_def str_remove_def)
  have e2: "parse_decimal (Some ''1 234,56'') = Inr (Finite False 123456 (- 2))"
    using Decimal_plain_exact [OF d(1) _ d(2)] v
    by (simp add: parse_decimal_def str_replace_def str_remove_def)
  from a b e1 e2 plain_form_no_separator [of raw] show ?thesis by blast
qed

theorem parse_decimal_separators_witness:
  "parse_decimal (Some ''12 345,678'') = parse_decimal (Some ''12345.678'')
   \<and> parse_decimal (Some ''12 345,678'') = Inr (Finite False 12345678 (- 3))"
proof -
  note t = parse_decimal_separators [of "''12 345,678''" "''12345''" "''678''"]
  have v: "nat_of_digits (''12345'' @ ''678'') = 12345678"
    by (simp add: nat_of_digits_def digit_val_def)
  from t have "parse_decimal (Some ''12 345,678'')
      = parse_decimal (Some (plain_form ''12 345,678''))"
    by (rule conjunct1)
  then have a: "parse_decimal (Some ''12 345,678'') = parse_decimal (Some ''12345.678'')"
    by simp
  from t have imp: "list_all is_digit ''12345'' \<and> ''12345'' \<noteq> [] \<and> list_all is_digit ''678''
      \<and> plain_form ''12 345,678'' = ''12345'' @ CHR ''.'' # ''678''
    \<longrightarrow> parse_decimal (Some ''12 345,678'')
      = Inr (Finite False (nat_of_digits (''12345'' @ ''678'')) (- int (length ''678'')))"
    by blast
  have "parse_decimal (Some ''12 345,678'')
      = Inr (Finite False (nat_of_digits (''12345'' @ ''678'')) (- int (length ''678'')))"
    by (rule mp [OF imp]) (simp add: is_digit_def)
  then have b: "parse_decimal (Some ''12 345,678'') = Inr (Finite False 12345678 (- 3))"
    unfolding v by simp
  from a b show ?thesis by (rule conjI)
qed

section \<open>The calendar\<close>

lemma div_step:
  assumes k: "0 < (k::int)"
  shows "z div k = (z - 1) div k + (if z mod k = 0 then 1 else 0)"
proof (cases "z mod k = 0")
  case True
  have "z - 1 = k * (z div k - 1) + (k - 1)"
    using mult_div_mod_eq [of k z] True by (simp add: algebra_simps)
  then have "(z - 1) div k = (k * (z div k - 1) + (k - 1)) div k"
    by (rule arg_cong [where f = "\<lambda>x. x div k"])
  also have "\<dots> = (z div k - 1) + (k - 1) div k"
    using k by (intro div_mult_self4) simp
  also have "(k - 1) div k = 0" using k by (intro div_pos_pos_trivial) simp_all
  finally show ?thesis using True by simp
next
  case False
  have "0 \<le> z mod k" using k by simp
  with False have r1: "0 \<le> z mod k - 1" by arith
  have "z mod k < k" using k by simp
  then have r2: "z mod k - 1 < k" by arith
  have "z - 1 = k * (z div k) + (z mod k - 1)"
    using mult_div_mod_eq [of k z] by (simp add: algebra_simps)
  then have "(z - 1) div k = (k * (z div k) + (z mod k - 1)) div k"
    by (rule arg_cong [where f = "\<lambda>x. x div k"])
  also have "\<dots> = z div k + (z mod k - 1) div k"
    using k by (intro div_mult_self4) simp
  also have "(z mod k - 1) div k = 0" using r1 r2 by (rule div_pos_pos_trivial)
  finally show ?thesis using False by simp
qed

lemma mod_400_100: "(z::int) mod 400 = 0 \<Longrightarrow> z mod 100 = 0"
proof -
  assume a: "z mod 400 = 0"
  have "z mod 400 mod 100 = z mod 100" by (intro mod_mod_cancel) simp
  with a show ?thesis by simp
qed

lemma mod_100_4: "(z::int) mod 100 = 0 \<Longrightarrow> z mod 4 = 0"
proof -
  assume a: "z mod 100 = 0"
  have "z mod 100 mod 4 = z mod 4" by (intro mod_mod_cancel) simp
  with a show ?thesis by simp
qed

lemma days_before_year_step:
  "days_before_year y = days_before_year (y - 1) + 365 + (if is_leap (y - 1) then 1 else 0)"
proof -
  define z where "z = y - 1"
  define c4 :: int where "c4 = (if z mod 4 = 0 then 1 else 0)"
  define c100 :: int where "c100 = (if z mod 100 = 0 then 1 else 0)"
  define c400 :: int where "c400 = (if z mod 400 = 0 then 1 else 0)"
  have d4: "z div 4 = (z - 1) div 4 + c4" unfolding c4_def by (rule div_step) simp
  have d100: "z div 100 = (z - 1) div 100 + c100" unfolding c100_def by (rule div_step) simp
  have d400: "z div 400 = (z - 1) div 400 + c400" unfolding c400_def by (rule div_step) simp
  have leap: "(if is_leap z then 1 else 0) = c4 - c100 + c400"
  proof (cases "z mod 400 = 0")
    case True
    with mod_400_100 [of z] have "z mod 100 = 0" by simp
    with mod_100_4 [of z] True show ?thesis
      by (simp add: is_leap_def c4_def c100_def c400_def)
  next
    case n400: False
    show ?thesis
    proof (cases "z mod 100 = 0")
      case True
      with mod_100_4 [of z] n400 show ?thesis
        by (simp add: is_leap_def c4_def c100_def c400_def)
    next
      case False
      with n400 show ?thesis
        by (simp add: is_leap_def c4_def c100_def c400_def)
    qed
  qed
  have "days_before_year (z + 1) = z * 365 + z div 4 - z div 100 + z div 400"
    by (simp add: days_before_year_def)
  also have "\<dots> = (z - 1) * 365 + (z - 1) div 4 - (z - 1) div 100 + (z - 1) div 400 + 365
        + (c4 - c100 + c400)"
    unfolding d4 d100 d400 by (simp add: algebra_simps)
  also have "\<dots> = days_before_year z + 365 + (if is_leap z then 1 else 0)"
    unfolding leap by (simp add: days_before_year_def)
  finally show ?thesis by (simp add: z_def)
qed


lemma days_before_month_1: "days_before_month y 1 = 0"
  by (simp add: days_before_month_def)

lemma days_before_month_step:
  "1 < m \<Longrightarrow> days_before_month y m = days_before_month y (m - 1) + days_in_month y (m - 1)"
proof -
  assume m: "1 < m"
  then have "[1..m - 1] = [1..m - 1 - 1] @ [m - 1]" by (intro upto_rec2) simp
  then show ?thesis by (simp add: days_before_month_def)
qed

lemma days_before_month_12: "days_before_month y 12 + 31 = 365 + (if is_leap y then 1 else 0)"
  by (simp add: days_before_month_def days_in_month_def upto.simps [of 1])

lemma days_before_month_nonneg: "0 \<le> days_before_month y m"
  unfolding days_before_month_def
  by (intro sum_list_nonneg) (auto simp: days_in_month_def)

lemma days_before_year_nonneg: "1 \<le> y \<Longrightarrow> 0 \<le> days_before_year y"
proof -
  assume "1 \<le> y"
  then have z: "0 \<le> y - 1" by simp
  have "(y - 1) div 100 \<le> (y - 1) div 4" using z by (intro zdiv_mono2) simp_all
  moreover have "0 \<le> (y - 1) div 400" using z by (simp add: pos_imp_zdiv_nonneg_iff)
  ultimately show ?thesis using z by (simp add: days_before_year_def)
qed

lemma toordinal_date_min: "toordinal date_min = 1"
  by (simp add: toordinal_def date_min_def days_before_year_def days_before_month_def)

lemma days_in_month_pos: "1 \<le> days_in_month y m"
  by (simp add: days_in_month_def)

lemma prev_day_ok:
  assumes "valid_date d" "d \<noteq> date_min"
  shows "valid_date (prev_day d) \<and> toordinal (prev_day d) = toordinal d - 1"
proof (cases d)
  case (fields y m dd)
  with assms have v: "1 \<le> y" "y \<le> 9999" "1 \<le> m" "m \<le> 12" "1 \<le> dd" "dd \<le> days_in_month y m"
    by (simp_all add: valid_date_def)
  show ?thesis
  proof (cases "1 < dd")
    case True
    with v fields show ?thesis by (simp add: prev_day_def valid_date_def toordinal_def)
  next
    case d1: False
    with v have dd: "dd = 1" by simp
    show ?thesis
    proof (cases "1 < m")
      case True
      with v fields dd days_in_month_pos [of y "m - 1"] show ?thesis
        by (simp add: prev_day_def valid_date_def toordinal_def days_before_month_step [of m y])
    next
      case False
      with v have m1: "m = 1" by simp
      with assms fields dd have "y \<noteq> 1" by (simp add: date_min_def)
      with v have y2: "2 \<le> y" by simp
      have p: "prev_day d = \<lparr>d_year = y - 1, d_month = 12, d_day = 31\<rparr>"
        using fields dd m1 by (simp add: prev_day_def)
      have "toordinal (prev_day d) = days_before_year (y - 1) + (days_before_month (y - 1) 12 + 31)"
        by (simp add: p toordinal_def)
      also have "\<dots> = days_before_year y"
        using days_before_year_step [of y] days_before_month_12 [of "y - 1"] by simp
      also have "\<dots> = toordinal d - 1"
        using fields dd m1 by (simp add: toordinal_def days_before_month_1)
      finally have t: "toordinal (prev_day d) = toordinal d - 1" .
      have "valid_date (prev_day d)"
        using v y2 by (simp add: p valid_date_def days_in_month_def)
      with t show ?thesis by simp
    qed
  qed
qed

lemma date_sub_days_ok:
  "valid_date d \<Longrightarrow> int n < toordinal d \<Longrightarrow>
   \<exists>d'. date_sub_days d n = Inr d' \<and> valid_date d' \<and> toordinal d' = toordinal d - int n"
proof (induction n arbitrary: d)
  case 0
  then show ?case by simp
next
  case (Suc n)
  then have ne: "d \<noteq> date_min" using toordinal_date_min by auto
  from prev_day_ok [OF Suc.prems(1) ne] Suc.prems(2)
  have "valid_date (prev_day d)" "int n < toordinal (prev_day d)" by simp_all
  from Suc.IH [OF this] prev_day_ok [OF Suc.prems(1) ne] ne show ?case by auto
qed

lemma date_sub_days_overflow:
  "valid_date d \<Longrightarrow> toordinal d \<le> int n \<Longrightarrow> date_sub_days d n = Inl OverflowError"
proof (induction n arbitrary: d)
  case 0
  then have "1 \<le> toordinal d" 
    using days_before_year_nonneg [of "d_year d"] days_before_month_nonneg [of "d_year d" "d_month d"]
    by (simp add: toordinal_def valid_date_def)
  with 0 show ?case by simp
next
  case (Suc n)
  show ?case
  proof (cases "d = date_min")
    case True then show ?thesis by simp
  next
    case False
    from prev_day_ok [OF Suc.prems(1) False] Suc.prems(2) Suc.IH [of "prev_day d"] False
    show ?thesis by simp
  qed
qed


section \<open>Validation and access checks of the handlers\<close>

lemma Decimal_error: "Decimal s = Inl e \<Longrightarrow> e = InvalidOperation"
  by (auto simp: Decimal_def split: prod.splits option.splits)

lemma parse_decimal_error: "parse_decimal raw = Inl e \<Longrightarrow> e = InvalidOperation"
  by (auto simp: parse_decimal_def split: option.splits dest: Decimal_error)

lemma dec_le_zero_error: "dec_le_zero d = Inl e \<Longrightarrow> e = InvalidOperation"
  by (cases d) (auto simp: dec_le_zero_def)

lemma checked_amount_error: "checked_amount raw = Inl e \<Longrightarrow> e = InvalidOperation"
  by (auto simp: checked_amount_def split: sum.splits if_splits
      dest: parse_decimal_error dec_le_zero_error)

lemma wf_example_db: "wf_db example_db"
  by (simp add: wf_db_def example_db_def int4_max_def in_column_def)

lemmas eval_ndigits =
  ndigits.simps [of 0] ndigits.simps [of 1] ndigits.simps [of "Suc 0"]
  ndigits.simps [of "numeral k"] for k

lemmas eval_string =
  str_replace_def str_remove_def py_strip_def is_space_def int_strip_def is_int_space_def
  split_sign_def is_digit_def nat_of_digits_def digit_val_def to_lower_def

lemmas eval_decimal =
  checked_amount_def parse_decimal_def Decimal_def parse_number_def parse_exponent_def
  exponent_in_range_def parse_special_def dec_le_zero_def numeric_14_2_def py_int_def
  eval_ndigits eval_string

lemmas eval_handler =
  current_user_def unauthorized_def form_description_def form_date_def example_db_def
  example_form_def int4_max_def has_nul_def sendable_def eval_decimal

lemma find_None_owner:
  assumes "distinct (map t_id txs)"
    and "(\<forall>t\<in>set txs. t_id t \<noteq> i) \<or> (\<exists>t\<in>set txs. t_id t = i \<and> t_user_id t \<noteq> uid)"
  shows "find (\<lambda>t. t_id t = i \<and> t_user_id t = uid) txs = None"
proof -
  have "\<not> (\<exists>t. t \<in> set txs \<and> t_id t = i \<and> t_user_id t = uid)"
  proof
    assume "\<exists>t. t \<in> set txs \<and> t_id t = i \<and> t_user_id t = uid"
    then obtain t where t: "t \<in> set txs" "t_id t = i" "t_user_id t = uid" by blast
    from assms(2) t obtain t' where t': "t' \<in> set txs" "t_id t' = i" "t_user_id t' \<noteq> uid"
      by blast
    from assms(1) have "inj_on t_id (set txs)" by (simp add: distinct_map)
    with t t' have "t = t'" by (auto dest: inj_onD)
    with t t' show False by simp
  qed
  then show ?thesis by (simp add: find_None_iff)
qed

lemma find_category_mismatch:
  assumes "distinct (map c_id cs)" "c \<in> set cs" "c_type c \<noteq> ty"
  shows "find (\<lambda>x. c_id x = c_id c \<and> c_user_id x = uid \<and> c_type x = ty) cs = None"
proof -
  from assms(1) have inj: "inj_on c_id (set cs)" by (simp add: distinct_map)
  have "\<not> (\<exists>x. x \<in> set cs \<and> c_id x = c_id c \<and> c_user_id x = uid \<and> c_type x = ty)"
  proof
    assume "\<exists>x. x \<in> set cs \<and> c_id x = c_id c \<and> c_user_id x = uid \<and> c_type x = ty"
    then obtain x where x: "x \<in> set cs" "c_id x = c_id c" "c_type x = ty" by blast
    with inj assms(2) have "x = c" by (auto dest: inj_onD)
    with x assms(3) show False by simp
  qed
  then show ?thesis by (simp add: find_None_iff)
qed

lemma find_category_absent:
  assumes "\<forall>x\<in>set cs. c_id x \<noteq> cid"
  shows "find (\<lambda>x. c_id x = cid \<and> c_user_id x = uid \<and> c_type x = ty) cs = None"
  using assms by (auto simp: find_None_iff)

text \<open>
  C5. When the amount of the form fails to parse, or parses to a value that is at most zero,
  add_transaction leaves the stored state (users, categories, transactions) as it was, and
  for a logged-in caller it flashes the invalid-amount message and redirects to the
  dashboard.
\<close>

theorem add_transaction_rejects_bad_amount:
  assumes "parse_decimal (f_amount form) = Inl e
     \<or> (\<exists>d. parse_decimal (f_amount form) = Inr d \<and> dec_le_zero d = Inr True)"
  shows "fst (add_transaction s sess form now) = s
    \<and> (current_user s sess \<noteq> None
        \<longrightarrow> add_transaction s sess form now = (s, [Bad_amount], Redirect Dashboard))"
proof -
  from assms have "checked_amount (f_amount form) = Inl InvalidOperation"
    by (auto simp: checked_amount_def dest: parse_decimal_error)
  then show ?thesis
    by (auto simp: add_transaction_def unauthorized_def split: option.splits)
qed

theorem add_transaction_rejects_bad_amount_witness:
  "parse_decimal (Some ''-5'') = Inr (Finite True 5 0)
   \<and> dec_le_zero (Finite True 5 0) = Inr True
   \<and> add_transaction example_db (Some 1) (example_form ''expense'' ''-5'' ''1'') (march 5)
       = (example_db, [Bad_amount], Redirect Dashboard)
   \<and> add_transaction example_db (Some 1) (example_form ''expense'' ''abc'' ''1'') (march 5)
       = (example_db, [Bad_amount], Redirect Dashboard)"
proof -
  have p: "parse_decimal (Some ''-5'') = Inr (Finite True 5 0)" by (simp add: eval_decimal)
  have q: "dec_le_zero (Finite True 5 0) = Inr True" by (simp add: dec_le_zero_def)
  have r: "parse_decimal (Some ''abc'') = Inl InvalidOperation" by (simp add: eval_decimal)
  have u: "current_user example_db (Some 1) \<noteq> None" by (simp add: eval_handler)
  have a: "add_transaction example_db (Some 1) (example_form ''expense'' ''-5'' ''1'') (march 5)
       = (example_db, [Bad_amount], Redirect Dashboard)"
    using add_transaction_rejects_bad_amount
      [of "example_form ''expense'' ''-5'' ''1''" InvalidOperation example_db "Some 1" "march 5"]
      p q u
    by (simp add: example_form_def)
  have b: "add_transaction example_db (Some 1) (example_form ''expense'' ''abc'' ''1'') (march 5)
       = (example_db, [Bad_amount], Redirect Dashboard)"
    using add_transaction_rejects_bad_amount
      [of "example_form ''expense'' ''abc'' ''1''" InvalidOperation example_db "Some 1" "march 5"]
      r u
    by (simp add: example_form_def)
  from p q a b show ?thesis by simp
qed

text \<open>
  C6. In a stored state with distinct primary keys, when no transaction has the requested
  identifier, or the transaction that has it belongs to another user than the caller,
  edit_transaction (for either method and any form) and delete_transaction answer not found
  and leave the stored state as it was.
\<close>

theorem foreign_transaction_not_found:
  assumes "wf_db s" "current_user s sess = Some u"
    and "(\<forall>t\<in>set (transactions s). t_id t \<noteq> i)
       \<or> (\<exists>t\<in>set (transactions s). t_id t = i \<and> t_user_id t \<noteq> u_id u)"
  shows "edit_transaction s sess i m form = (s, [], Not_found)
    \<and> delete_transaction s sess i = (s, [], Not_found)"
proof -
  from assms(1) have "distinct (map t_id (transactions s))" by (simp add: wf_db_def)
  from find_None_owner [OF this assms(3)] assms(2) show ?thesis
    by (simp add: edit_transaction_def delete_transaction_def)
qed

theorem foreign_transaction_not_found_witness:
  "wf_db example_db
   \<and> edit_transaction example_db (Some 1) 3 POST (example_form ''expense'' ''5'' ''1'')
       = (example_db, [], Not_found)
   \<and> delete_transaction example_db (Some 1) 3 = (example_db, [], Not_found)
   \<and> delete_transaction example_db (Some 1) 77 = (example_db, [], Not_found)"
proof -
  let ?u = "hd (users example_db)"
  have u: "current_user example_db (Some 1) = Some ?u" by (simp add: eval_handler)
  have o: "\<exists>t\<in>set (transactions example_db). t_id t = 3 \<and> t_user_id t \<noteq> u_id ?u"
    by (simp add: example_db_def)
  have n: "\<forall>t\<in>set (transactions example_db). t_id t \<noteq> 77"
    by (simp add: example_db_def)
  from foreign_transaction_not_found [OF wf_example_db u, of 3] o
  have a: "edit_transaction example_db (Some 1) 3 POST (example_form ''expense'' ''5'' ''1'')
       = (example_db, [], Not_found)"
    and b: "delete_transaction example_db (Some 1) 3 = (example_db, [], Not_found)"
    by blast+
  from foreign_transaction_not_found [OF wf_example_db u, of 77] n
  have c: "delete_transaction example_db (Some 1) 77 = (example_db, [], Not_found)"
    by blast
  from wf_example_db a b c show ?thesis by simp
qed

text \<open>
  C7 (as amended). The caller submits an accepted amount and the identifier of a category
  that exists and is the caller's own, with a type (given in the form, or the handler's
  default) that is not the stored type of that category. Then add_transaction and the POST of
  edit_transaction leave the stored state as it was, and the whole outcome is the one of the
  same request with an identifier that no category has: the category-not-found message
  and the redirect, unless the submitted type contains a NUL character; then the lookup
  of lines 424 to 426 and 481 to 483 cannot be sent, and the request ends in the server error
  of the driver's ValueError.
\<close>

theorem category_type_mismatch:
  assumes "wf_db s" "current_user s sess = Some u"
    and "c \<in> set (categories s)" "c_user_id c = u_id u" "c_type c \<noteq> ty"
    and "checked_amount (f_amount form) = Inr a"
    and "py_int (f_category_id form) = Inr (c_id c)"
    and "\<forall>x\<in>set (categories s). c_id x \<noteq> absent" "py_int other = Inr absent"
  shows "(f_type form = Some ty \<or> f_type form = None \<and> ty = ''expense''
      \<longrightarrow> add_transaction s sess form now
            = (if has_nul ty then (s, [], Server_error ValueError)
               else (s, [Category_not_found], Redirect Dashboard))
        \<and> add_transaction s sess (form\<lparr>f_category_id := other\<rparr>) now
            = add_transaction s sess form now)
    \<and> (find (\<lambda>t. t_id t = i \<and> t_user_id t = u_id u) (transactions s) = Some tx
        \<and> (f_type form = Some ty \<or> f_type form = None \<and> ty = t_type tx)
      \<longrightarrow> edit_transaction s sess i POST form
            = (if has_nul ty then (s, [], Server_error ValueError)
               else (s, [Category_not_found], Redirect (Edit_transaction (t_id tx))))
        \<and> edit_transaction s sess i POST (form\<lparr>f_category_id := other\<rparr>)
            = edit_transaction s sess i POST form)"
proof -
  from assms(1) have d: "distinct (map c_id (categories s))" by (simp add: wf_db_def)
  note m = find_category_mismatch [OF d assms(3) assms(5), of "u_id u"]
  note ab = find_category_absent [OF assms(8), of "u_id u" ty]
  show ?thesis
    using assms(2,6,7,9) m ab
    by (auto simp: add_transaction_def edit_transaction_def)
qed

theorem category_type_mismatch_witness:
  "add_transaction example_db (Some 1) (example_form ''expense'' ''12,50'' ''2'') (march 5)
       = (example_db, [Category_not_found], Redirect Dashboard)
   \<and> add_transaction example_db (Some 1) (example_form ''expense'' ''12,50'' ''99'') (march 5)
       = (example_db, [Category_not_found], Redirect Dashboard)
   \<and> edit_transaction example_db (Some 1) 1 POST (example_form ''expense'' ''12,50'' ''2'')
       = (example_db, [Category_not_found], Redirect (Edit_transaction 1))
   \<and> edit_transaction example_db (Some 1) 1 POST (example_form ''expense'' ''12,50'' ''99'')
       = (example_db, [Category_not_found], Redirect (Edit_transaction 1))"
proof -
  let ?u = "hd (users example_db)"
  let ?c = "categories example_db ! 1"
  let ?tx = "hd (transactions example_db)"
  let ?form = "example_form ''expense'' ''12,50'' ''2''"
  have u: "current_user example_db (Some 1) = Some ?u" by (simp add: eval_handler)
  have c: "?c \<in> set (categories example_db)" "c_user_id ?c = u_id ?u" "c_type ?c \<noteq> ''expense''"
    by (simp_all add: example_db_def)
  have a: "checked_amount (f_amount ?form) = Inr (Finite False 1250 (- 2))"
    by (simp add: eval_handler)
  have i: "py_int (f_category_id ?form) = Inr (c_id ?c)" by (simp add: eval_handler)
  have n: "\<forall>x\<in>set (categories example_db). c_id x \<noteq> 99" by (simp add: example_db_def)
  have o: "py_int (Some ''99'') = Inr 99" by (simp add: eval_decimal)
  have f: "find (\<lambda>t. t_id t = 1 \<and> t_user_id t = u_id ?u) (transactions example_db) = Some ?tx"
    by (simp add: example_db_def)
  have e: "?form\<lparr>f_category_id := Some ''99''\<rparr> = example_form ''expense'' ''12,50'' ''99''"
    by (simp add: example_form_def)
  have t: "f_type ?form = Some ''expense''" "t_id ?tx = 1"
    by (simp_all add: example_form_def example_db_def)
  from category_type_mismatch [OF wf_example_db u c a i n o, of "march 5" 1 ?tx] f t
  show ?thesis unfolding e by (simp add: has_nul_def)
qed

text \<open>
  C7 (counterexample). Category 1 is an expense category of the caller; the type submitted
  with it is the six letters of "income" followed by a NUL character. The request is not
  answered with the category-not-found message and the redirect, but with a server error.
\<close>

theorem category_type_nul_counterexample:
  "c_id (hd (categories example_db)) = 1
   \<and> c_user_id (hd (categories example_db)) = 1
   \<and> c_type (hd (categories example_db)) \<noteq> ''income'' @ [CHR 0x00]
   \<and> add_transaction example_db (Some 1)
         (example_form (''income'' @ [CHR 0x00]) ''12,50'' ''1'') (march 5)
       = (example_db, [], Server_error ValueError)
   \<and> add_transaction example_db (Some 1)
         (example_form (''income'' @ [CHR 0x00]) ''12,50'' ''1'') (march 5)
       \<noteq> (example_db, [Category_not_found], Redirect Dashboard)"
  by (simp add: add_transaction_def eval_handler)

lemma find_map_same:
  "(\<And>x. P (f x) = P x) \<Longrightarrow> find P (map f xs) = map_option f (find P xs)"
  by (induction xs) simp_all

lemma current_user_find:
  "current_user s sess = Some u \<Longrightarrow> find (\<lambda>x. u_id x = u_id u) (users s) = Some u"
proof -
  assume a: "current_user s sess = Some u"
  then obtain uid where s: "sess = Some uid" and f: "find (\<lambda>x. u_id x = uid) (users s) = Some u"
    by (auto simp: current_user_def split: option.splits)
  from f have "u_id u = uid" by (auto simp: find_Some_iff)
  with f show ?thesis by simp
qed

lemma users_add_transaction: "users (fst (add_transaction s sess form now)) = users s"
  by (auto simp: add_transaction_def unauthorized_def Let_def split: option.splits sum.splits)

lemma users_edit_transaction: "users (fst (edit_transaction s sess i m form)) = users s"
  by (auto simp: edit_transaction_def unauthorized_def Let_def split: option.splits sum.splits)

lemma users_delete_transaction: "users (fst (delete_transaction s sess i)) = users s"
  by (auto simp: delete_transaction_def unauthorized_def split: option.splits)

lemma db_dashboard: "fst (dashboard s sess p today) = s"
  by (auto simp: dashboard_def unauthorized_def Let_def split: option.splits sum.splits)

lemma setup_balance_keeps:
  assumes "initial_balance_of s uid = Some b"
  shows "initial_balance_of (fst (setup_balance s sess m f)) uid = Some b"
proof (cases "current_user s sess")
  case None
  with assms show ?thesis by (simp add: setup_balance_def unauthorized_def)
next
  case (Some u)
  note cu = current_user_find [OF Some]
  show ?thesis
  proof (cases "u_initial_balance u")
    case (Some b')
    with \<open>current_user s sess = Some u\<close> assms show ?thesis by (simp add: setup_balance_def)
  next
    case None
    have ne: "uid \<noteq> u_id u"
    proof
      assume "uid = u_id u"
      with cu None assms show False by (simp add: initial_balance_of_def)
    qed
    have upd: "initial_balance_of
        (s\<lparr>users := map (\<lambda>x. if u_id x = u_id u then x\<lparr>u_initial_balance := Some c\<rparr> else x)
           (users s)\<rparr>) uid = Some b" for c
    proof -
      let ?f = "\<lambda>x. if u_id x = u_id u then x\<lparr>u_initial_balance := Some c\<rparr> else x"
      have "find (\<lambda>x. u_id x = uid) (map ?f (users s))
          = map_option ?f (find (\<lambda>x. u_id x = uid) (users s))"
        by (rule find_map_same) simp
      moreover from assms obtain v where v: "find (\<lambda>x. u_id x = uid) (users s) = Some v"
        "u_initial_balance v = Some b"
        by (auto simp: initial_balance_of_def split: option.splits)
      moreover from v have "u_id v = uid" by (auto simp: find_Some_iff)
      ultimately show ?thesis using ne by (simp add: initial_balance_of_def)
    qed
    from \<open>current_user s sess = Some u\<close> None assms upd show ?thesis
      by (auto simp: setup_balance_def split: sum.splits)
  qed
qed

lemma handle_keeps:
  "initial_balance_of s uid = Some b \<Longrightarrow> initial_balance_of (fst (handle s r)) uid = Some b"
proof (cases r)
  case (Req_setup_balance sess m f)
  assume "initial_balance_of s uid = Some b"
  from setup_balance_keeps [OF this] Req_setup_balance show ?thesis by simp
next
  case (Req_dashboard sess p today)
  assume "initial_balance_of s uid = Some b"
  with Req_dashboard show ?thesis by (simp add: db_dashboard)
next
  case (Req_add sess form now)
  assume "initial_balance_of s uid = Some b"
  with Req_add show ?thesis by (simp add: initial_balance_of_def users_add_transaction)
next
  case (Req_edit sess i m form)
  assume "initial_balance_of s uid = Some b"
  with Req_edit show ?thesis by (simp add: initial_balance_of_def users_edit_transaction)
next
  case (Req_delete sess i)
  assume "initial_balance_of s uid = Some b"
  with Req_delete show ?thesis by (simp add: initial_balance_of_def users_delete_transaction)
qed

lemma run_keeps:
  "initial_balance_of s uid = Some b \<Longrightarrow> initial_balance_of (run s rs) uid = Some b"
  by (induction rs arbitrary: s) (simp_all add: handle_keeps)

text \<open>
  C8. Once the caller's initial balance is set, setup_balance redirects to the dashboard
  and changes nothing, whatever the method and the form; while it is not set, the dashboard
  redirects to setup_balance and computes nothing; and an initial balance that is set keeps
  its value through every sequence of requests to the handlers.
\<close>

theorem initial_balance_set_once:
  "(current_user s sess = Some u \<and> u_initial_balance u = Some b
      \<longrightarrow> setup_balance s sess m f = (s, [], Redirect Dashboard))
   \<and> (current_user s sess = Some u \<and> u_initial_balance u = None
      \<longrightarrow> dashboard s sess p today = (s, [], Redirect Setup_balance))
   \<and> (initial_balance_of s uid = Some b' \<longrightarrow> initial_balance_of (run s rs) uid = Some b')"
  using run_keeps [of s uid b' rs] by (auto simp: setup_balance_def dashboard_def)

theorem initial_balance_set_once_witness:
  "setup_balance example_db (Some 1) POST (Some ''5'') = (example_db, [], Redirect Dashboard)
   \<and> dashboard example_db (Some 2) None (dt_date (march 5))
       = (example_db, [], Redirect Setup_balance)
   \<and> initial_balance_of example_db 1 = Some (Fixed 100000)
   \<and> initial_balance_of
        (run example_db [Req_setup_balance (Some 1) POST (Some ''5''), Req_delete (Some 1) 1]) 1
       = Some (Fixed 100000)"
proof -
  have u1: "current_user example_db (Some 1) = Some (hd (users example_db))
      \<and> u_initial_balance (hd (users example_db)) = Some (Fixed 100000)"
    by (simp add: eval_handler)
  have u2: "current_user example_db (Some 2) = Some (users example_db ! 1)
      \<and> u_initial_balance (users example_db ! 1) = None"
    by (simp add: eval_handler)
  have i: "initial_balance_of example_db 1 = Some (Fixed 100000)"
    by (simp add: initial_balance_of_def example_db_def)
  from initial_balance_set_once
    [of example_db "Some 1" "hd (users example_db)" "Fixed 100000" POST "Some ''5''"] u1
  have a: "setup_balance example_db (Some 1) POST (Some ''5'')
      = (example_db, [], Redirect Dashboard)"
    by blast
  from initial_balance_set_once
    [of example_db "Some 2" "users example_db ! 1" _ _ _ None "dt_date (march 5)"] u2
  have b: "dashboard example_db (Some 2) None (dt_date (march 5))
      = (example_db, [], Redirect Setup_balance)"
    by blast
  from initial_balance_set_once [of example_db _ _ _ _ _ _ _ 1 "Fixed 100000"] i
  have c: "initial_balance_of
        (run example_db [Req_setup_balance (Some 1) POST (Some ''5''), Req_delete (Some 1) 1]) 1
       = Some (Fixed 100000)"
    by blast
  from a b i c show ?thesis by simp
qed

text \<open>
  C10 (as amended). setup_balance checks neither sign nor magnitude itself: for a caller
  without initial balance and every string that parse_decimal accepts, the parsed value goes
  to the Numeric(14,2) column as it is. When the column accepts it, the POST succeeds,
  touches no category and no transaction, and the initial balance is what the column makes
  of the value: a finite value rounded to two fractional digits, be it zero or negative
  ("0" gives 0.00 and "-100,50" gives -100.50), and NaN for a NaN or an infinity. When the
  column refuses it (a magnitude of 10 ^ 12 or more after rounding, such as "1e12", or more
  than 16383 fractional digits), the commit fails with that error and nothing is stored.
\<close>

theorem setup_balance_stores:
  assumes "current_user s sess = Some u" "u_initial_balance u = None"
    and "parse_decimal raw = Inr d"
  shows "(numeric_14_2 d = Inr b
      \<longrightarrow> (\<exists>s'. setup_balance s sess POST raw = (s', [Balance_saved], Redirect Dashboard)
            \<and> initial_balance_of s' (u_id u) = Some b
            \<and> categories s' = categories s \<and> transactions s' = transactions s))
    \<and> (numeric_14_2 d = Inl e \<longrightarrow> setup_balance s sess POST raw = (s, [], Server_error e))"
proof -
  let ?f = "\<lambda>x. if u_id x = u_id u then x\<lparr>u_initial_balance := Some b\<rparr> else x"
  have "find (\<lambda>x. u_id x = u_id u) (map ?f (users s))
      = map_option ?f (find (\<lambda>x. u_id x = u_id u) (users s))"
    by (rule find_map_same) simp
  with current_user_find [OF assms(1)]
  have "initial_balance_of (s\<lparr>users := map ?f (users s)\<rparr>) (u_id u) = Some b"
    by (simp add: initial_balance_of_def)
  with assms show ?thesis by (simp add: setup_balance_def)
qed

theorem setup_balance_stores_witness:
  "(\<exists>s'. setup_balance example_db (Some 2) POST (Some ''-100,50'')
            = (s', [Balance_saved], Redirect Dashboard)
        \<and> initial_balance_of s' 2 = Some (Fixed (- 10050)))
   \<and> (\<exists>s'. setup_balance example_db (Some 2) POST (Some ''0'')
            = (s', [Balance_saved], Redirect Dashboard)
        \<and> initial_balance_of s' 2 = Some (Fixed 0))
   \<and> (\<exists>s'. setup_balance example_db (Some 2) POST (Some ''NaN'')
            = (s', [Balance_saved], Redirect Dashboard)
        \<and> initial_balance_of s' 2 = Some Not_a_number)
   \<and> setup_balance example_db (Some 2) POST (Some ''1e-16384'')
        = (example_db, [], Server_error DataError)"
proof -
  let ?u = "users example_db ! 1"
  have u: "current_user example_db (Some 2) = Some ?u" "u_initial_balance ?u = None"
    by (simp_all add: eval_handler)
  have i: "u_id ?u = 2" by (simp add: example_db_def)
  have p1: "parse_decimal (Some ''-100,50'') = Inr (Finite True 10050 (- 2))"
    by (simp add: eval_decimal)
  have n1: "numeric_14_2 (Finite True 10050 (- 2)) = Inr (Fixed (- 10050))"
    by (simp add: numeric_14_2_def eval_ndigits)
  have p2: "parse_decimal (Some ''0'') = Inr (Finite False 0 0)"
    by (simp add: eval_decimal)
  have n2: "numeric_14_2 (Finite False 0 0) = Inr (Fixed 0)"
    by (simp add: numeric_14_2_def eval_ndigits)
  have p3: "parse_decimal (Some ''NaN'') = Inr (NaN False False 0)"
    by (simp add: eval_decimal)
  have n3: "numeric_14_2 (NaN False False 0) = Inr Not_a_number"
    by (simp add: numeric_14_2_def)
  have p4: "parse_decimal (Some ''1e-16384'') = Inr (Finite False 1 (- 16384))"
    by (simp add: eval_decimal)
  have n4: "numeric_14_2 (Finite False 1 (- 16384)) = Inl DataError"
    by (simp add: numeric_14_2_def)
  from setup_balance_stores [OF u p1, of "Fixed (- 10050)"] n1 i
  have a: "\<exists>s'. setup_balance example_db (Some 2) POST (Some ''-100,50'')
            = (s', [Balance_saved], Redirect Dashboard)
        \<and> initial_balance_of s' 2 = Some (Fixed (- 10050))"
    by auto
  from setup_balance_stores [OF u p2, of "Fixed 0"] n2 i
  have b: "\<exists>s'. setup_balance example_db (Some 2) POST (Some ''0'')
            = (s', [Balance_saved], Redirect Dashboard)
        \<and> initial_balance_of s' 2 = Some (Fixed 0)"
    by auto
  from setup_balance_stores [OF u p3, of Not_a_number] n3 i
  have c: "\<exists>s'. setup_balance example_db (Some 2) POST (Some ''NaN'')
            = (s', [Balance_saved], Redirect Dashboard)
        \<and> initial_balance_of s' 2 = Some Not_a_number"
    by auto
  from setup_balance_stores [OF u p4, of _ DataError] n4
  have d: "setup_balance example_db (Some 2) POST (Some ''1e-16384'')
        = (example_db, [], Server_error DataError)"
    by auto
  from a b c d show ?thesis by blast
qed

theorem setup_balance_overflow_counterexample:
  "parse_decimal (Some ''1e12'') = Inr (Finite False 1 12)
   \<and> initial_balance_of example_db 2 = None
   \<and> setup_balance example_db (Some 2) POST (Some ''1e12'')
       = (example_db, [], Server_error DataError)
   \<and> parse_decimal (Some ''0.001'') = Inr (Finite False 1 (- 3))
   \<and> numeric_14_2 (Finite False 1 (- 3)) = Inr (Fixed 0)"
  by (simp add: setup_balance_def initial_balance_of_def eval_handler)

text \<open>
  C3 (the code at the failing input). The amount "0.001" passes the check of lines 401 to 403
  and 460 to 462, since it is greater than zero; the column keeps two fractional digits, so
  the amount that add_transaction and edit_transaction store is 0.00.
\<close>

theorem stored_amount_zero:
  "checked_amount (Some ''0.001'') = Inr (Finite False 1 (- 3))
   \<and> add_transaction example_db (Some 1) (example_form ''expense'' ''0.001'' ''1'') (march 5)
       = (example_db\<lparr>transactions := transactions example_db @
             [\<lparr>t_id = 4, t_user_id = 1, t_category_id = 1, t_amount = Fixed 0,
               t_type = ''expense'', t_description = None, t_created_at = march 5\<rparr>],
           tx_seq := 4\<rparr>,
          [Tx_added], Redirect Dashboard)
   \<and> map t_amount (transactions (fst
        (edit_transaction example_db (Some 1) 1 POST (example_form ''expense'' ''0.001'' ''1''))))
       = [Fixed 0, Fixed 50000, Fixed 700]
   \<and> snd (edit_transaction example_db (Some 1) 1 POST (example_form ''expense'' ''0.001'' ''1''))
       = ([Tx_updated], Redirect Dashboard)"
  by (simp add: add_transaction_def edit_transaction_def eval_handler Let_def)

section \<open>The aggregation window\<close>

text \<open>
  What period_start gives for each selector, for a current date of the calendar later than
  7 January of year 1: "week" the date 7 days before the current date, "month" the first day
  of the current month, "year" the first day of the current year, "all" 1 January 1970, and
  every other selector what "month" gives.
\<close>

lemma period_start_mapping:
  assumes "valid_date today" "7 < toordinal today"
  shows "(\<exists>d. period_start ''week'' today = Inr d \<and> valid_date d
              \<and> toordinal d = toordinal today - 7)
    \<and> period_start ''month'' today = Inr (today\<lparr>d_day := 1\<rparr>)
    \<and> period_start ''year'' today = Inr (today\<lparr>d_month := 1, d_day := 1\<rparr>)
    \<and> period_start ''all'' today = Inr \<lparr>d_year = 1970, d_month = 1, d_day = 1\<rparr>
    \<and> (p \<noteq> ''week'' \<and> p \<noteq> ''month'' \<and> p \<noteq> ''year'' \<and> p \<noteq> ''all''
         \<longrightarrow> period_start p today = period_start ''month'' today)"
proof -
  from date_sub_days_ok [OF assms(1), of 7] assms(2)
  have "\<exists>d. date_sub_days today 7 = Inr d \<and> valid_date d \<and> toordinal d = toordinal today - 7"
    by simp
  then show ?thesis by (simp add: period_start_def)
qed

section \<open>The dashboard\<close>

lemma ndigits_le: "n < 10 ^ k \<Longrightarrow> 0 < k \<Longrightarrow> ndigits n \<le> k"
proof (induction k arbitrary: n)
  case 0
  then show ?case by simp
next
  case (Suc k)
  show ?case
  proof (cases "n < 10")
    case True
    then show ?thesis by (simp add: ndigits.simps [of n])
  next
    case False
    with Suc.prems have k: "0 < k" by (cases k) auto
    from Suc.prems have "n div 10 < 10 ^ k" by (simp add: less_mult_imp_div_less mult.commute)
    from Suc.IH [OF this k] False show ?thesis by (simp add: ndigits.simps [of n])
  qed
qed

lemma round_to_prec_exact: "\<bar>v\<bar> < 10 ^ 28 \<Longrightarrow> round_to_prec v = v"
proof -
  assume a: "\<bar>v\<bar> < 10 ^ 28"
  then have "nat \<bar>v\<bar> < 10 ^ 28" by (simp add: nat_less_iff)
  from ndigits_le [OF this] have "ndigits (nat \<bar>v\<bar>) - 28 = 0" by simp
  then show ?thesis by (simp add: round_to_prec_def)
qed

lemma ctx_round_exact: "within (10 ^ 28 - 1) x \<Longrightarrow> ctx_round x = x"
  by (cases x) (simp_all add: within_def ctx_round_def round_to_prec_exact)

lemma within_add: "within A x \<Longrightarrow> within B y \<Longrightarrow> within (A + B) (x + y)"
  by (cases x; cases y) (simp_all add: within_def)

lemma within_diff: "within A x \<Longrightarrow> within B y \<Longrightarrow> within (A + B) (x - y)"
  by (cases x; cases y) (simp_all add: within_def)

lemma within_mono: "within A x \<Longrightarrow> A \<le> B \<Longrightarrow> within B x"
  by (cases x) (simp_all add: within_def)

lemma in_column_within: "in_column x \<Longrightarrow> within (10 ^ 14) x"
  by (cases x) (simp_all add: within_def in_column_def)

lemma within_sum_list:
  "list_all (\<lambda>t. within B (f t)) xs \<Longrightarrow> within (int (length xs) * B) (sum_list (map f xs))"
proof (induction xs)
  case Nil
  then show ?case by (simp add: within_def zero_numeric_def)
next
  case (Cons x xs)
  then have "within B (f x)" "within (int (length xs) * B) (sum_list (map f xs))" by simp_all
  from within_add [OF this] show ?case by (simp add: algebra_simps)
qed

lemma wf_length: "wf_db s \<Longrightarrow> int (length (transactions s)) \<le> int4_max"
proof -
  assume wf: "wf_db s"
  let ?ids = "map t_id (transactions s)"
  from wf have d: "distinct ?ids" by (simp add: wf_db_def)
  from wf have "set ?ids \<subseteq> {1..int4_max}" by (auto simp: wf_db_def list_all_iff)
  then have "card (set ?ids) \<le> card {1..int4_max}" by (intro card_mono) simp_all
  moreover have "card (set ?ids) = length (transactions s)"
    using distinct_card [OF d] by simp
  ultimately have "length (transactions s) \<le> nat int4_max" by simp
  then show ?thesis by (simp add: int4_max_def)
qed

lemma total_bound:
  assumes "wf_db s"
  shows "within (int4_max * 10 ^ 14) (sum_list (map t_amount (filter P (transactions s))))"
proof -
  let ?xs = "filter P (transactions s)"
  from assms have "\<forall>t\<in>set (transactions s). in_column (t_amount t)"
    by (simp add: wf_db_def list_all_iff)
  then have "\<forall>t\<in>set ?xs. within (10 ^ 14) (t_amount t)"
    using in_column_within by fastforce
  then have "list_all (\<lambda>t. within (10 ^ 14) (t_amount t)) ?xs"
    unfolding list_all_iff .
  from within_sum_list [OF this]
  have 1: "within (int (length ?xs) * 10 ^ 14) (sum_list (map t_amount ?xs))" .
  have "int (length ?xs) \<le> int4_max"
    using wf_length [OF assms] length_filter_le [of P "transactions s"] by linarith
  then have "int (length ?xs) * 10 ^ 14 \<le> int4_max * 10 ^ 14"
    by (intro mult_right_mono) simp_all
  with 1 show ?thesis by (rule within_mono)
qed

lemma dt_ge_midnight: "dt_ge (t_created_at t) \<lparr>dt_date = start, dt_time = 0\<rparr> = on_or_after start t"
  by (auto simp: dt_ge_def dt_key_def on_or_after_def)

lemma total_query_spec:
  "total_query s uid ty \<lparr>dt_date = start, dt_time = 0\<rparr> = spec_total s uid ty start"
  by (simp add: total_query_def spec_total_def sql_sum_def coalesce_def dt_ge_midnight)

lemma period_start_total:
  assumes "valid_date today" "7 < toordinal today"
  shows "\<exists>d. period_start p today = Inr d"
proof -
  from date_sub_days_ok [OF assms(1), of 7] assms(2)
  have "\<exists>d. date_sub_days today 7 = Inr d" by auto
  then show ?thesis by (auto simp: period_start_def)
qed

lemma balance_exact:
  assumes "wf_db s" "in_column b"
  shows "dec_sub (dec_add (py_or b 0) (py_or (spec_total s uid ''income'' start) 0))
          (py_or (spec_total s uid ''expense'' start) 0)
       = b + spec_total s uid ''income'' start - spec_total s uid ''expense'' start"
proof -
  let ?i = "spec_total s uid ''income'' start" and ?e = "spec_total s uid ''expense'' start"
  have bi: "within (int4_max * 10 ^ 14) ?i" and be: "within (int4_max * 10 ^ 14) ?e"
    unfolding spec_total_def by (rule total_bound [OF assms(1)])+
  have o: "py_or b 0 = b" "py_or ?i 0 = ?i" "py_or ?e 0 = ?e" by (simp_all add: py_or_def)
  from within_add [OF in_column_within [OF assms(2)] bi]
  have s1: "within (10 ^ 14 + int4_max * 10 ^ 14) (b + ?i)" .
  then have "within (10 ^ 28 - 1) (b + ?i)" by (rule within_mono) (simp add: int4_max_def)
  then have a: "dec_add b ?i = b + ?i" by (simp add: dec_add_def ctx_round_exact)
  from within_diff [OF s1 be]
  have "within (10 ^ 28 - 1) (b + ?i - ?e)" by (rule within_mono) (simp add: int4_max_def)
  then have "dec_sub (b + ?i) ?e = b + ?i - ?e" by (simp add: dec_sub_def ctx_round_exact)
  with a o show ?thesis by simp
qed

lemma current_user_mem: "current_user s sess = Some u \<Longrightarrow> u \<in> set (users s)"
  by (auto simp: current_user_def find_Some_iff split: option.splits)

lemma spec_total_none:
  "\<not> (\<exists>t\<in>set (transactions s). t_user_id t = uid \<and> t_type t = ty \<and> on_or_after start t)
   \<Longrightarrow> spec_total s uid ty start = 0"
  by (auto simp: spec_total_def filter_empty_conv)

lemma dashboard_page_totals:
  assumes "wf_db s" "current_user s sess = Some u" "u_initial_balance u = Some b"
    and "period_start (case period of None \<Rightarrow> ''month'' | Some p \<Rightarrow> p) today = Inr start"
  shows "\<exists>pg. dashboard s sess period today = (s, [], Dashboard_page pg)
    \<and> p_total_income pg = spec_total s (u_id u) ''income'' start
    \<and> p_total_expense pg = spec_total s (u_id u) ''expense'' start
    \<and> p_balance pg = b + spec_total s (u_id u) ''income'' start
                        - spec_total s (u_id u) ''expense'' start"
proof -
  from assms(1) current_user_mem [OF assms(2)] assms(3) have b: "in_column b"
    by (auto simp: wf_db_def list_all_iff)
  note e = balance_exact [OF assms(1) b, of "u_id u" start]
  show ?thesis
    using assms(2,3,4) e
    by (simp add: dashboard_def Let_def total_query_spec)
qed

text \<open>
  C1. In a stored state that satisfies the schema, for a logged-in user whose initial
  balance is set, every period selector (absent, known or unknown) and a current date of the
  calendar after 7 January of year 1, the dashboard renders its page, and on it the total
  income and the total expense are the sums of the amounts of the user's income and expense
  transactions with a timestamp on or after the start date of the period, each zero when
  there is no such transaction, and the balance is exactly
  initial balance + total income - total expense: the rounding of Python's decimal context
  never applies to values the schema admits. (A NaN among the values makes the sum and the
  balance NaN, in the store as in Python.)
\<close>

theorem dashboard_balance:
  assumes "wf_db s" "current_user s sess = Some u" "u_initial_balance u = Some b"
    and "valid_date today" "7 < toordinal today"
  shows "\<exists>start pg.
      period_start (case period of None \<Rightarrow> ''month'' | Some p \<Rightarrow> p) today = Inr start
    \<and> dashboard s sess period today = (s, [], Dashboard_page pg)
    \<and> p_total_income pg = spec_total s (u_id u) ''income'' start
    \<and> p_total_expense pg = spec_total s (u_id u) ''expense'' start
    \<and> p_balance pg = b + spec_total s (u_id u) ''income'' start
                        - spec_total s (u_id u) ''expense'' start
    \<and> (\<not> (\<exists>t\<in>set (transactions s). t_user_id t = u_id u \<and> t_type t = ''income''
                \<and> on_or_after start t) \<longrightarrow> p_total_income pg = 0)
    \<and> (\<not> (\<exists>t\<in>set (transactions s). t_user_id t = u_id u \<and> t_type t = ''expense''
                \<and> on_or_after start t) \<longrightarrow> p_total_expense pg = 0)"
proof -
  from period_start_total [OF assms(4,5)] obtain start
    where st: "period_start (case period of None \<Rightarrow> ''month'' | Some p \<Rightarrow> p) today = Inr start"
    by blast
  from dashboard_page_totals [OF assms(1,2,3) st] obtain pg
    where d: "dashboard s sess period today = (s, [], Dashboard_page pg)"
      and i: "p_total_income pg = spec_total s (u_id u) ''income'' start"
      and e: "p_total_expense pg = spec_total s (u_id u) ''expense'' start"
      and b: "p_balance pg = b + spec_total s (u_id u) ''income'' start
                        - spec_total s (u_id u) ''expense'' start"
    by blast
  note z = spec_total_none [of s "u_id u" _ start]
  from st d i e b z show ?thesis by (metis (no_types, lifting))
qed

theorem dashboard_balance_witness:
  "\<exists>pg. dashboard example_db (Some 1) (Some ''month'') (dt_date (march 20))
          = (example_db, [], Dashboard_page pg)
      \<and> p_total_income pg = Fixed 50000 \<and> p_total_expense pg = Fixed 20000
      \<and> p_balance pg = Fixed 130000"
proof -
  let ?u = "hd (users example_db)"
  let ?today = "dt_date (march 20)"
  have u: "current_user example_db (Some 1) = Some ?u" "u_initial_balance ?u = Some (Fixed 100000)"
    by (simp_all add: current_user_def example_db_def)
  have v: "valid_date ?today" by (simp add: march_def valid_date_def days_in_month_def)
  have o: "7 < toordinal ?today"
    by (simp add: march_def toordinal_def days_before_year_def days_before_month_def
        days_in_month_def is_leap_def upto.simps [of 1])
  from dashboard_balance [OF wf_example_db u v o, of "Some ''month''"]
  obtain start pg where st: "period_start ''month'' ?today = Inr start"
    and d: "dashboard example_db (Some 1) (Some ''month'') ?today
        = (example_db, [], Dashboard_page pg)"
    and i: "p_total_income pg = spec_total example_db (u_id ?u) ''income'' start"
    and e: "p_total_expense pg = spec_total example_db (u_id ?u) ''expense'' start"
    and b: "p_balance pg = Fixed 100000 + spec_total example_db (u_id ?u) ''income'' start
                        - spec_total example_db (u_id ?u) ''expense'' start"
    by auto
  from st have s: "start = \<lparr>d_year = 2024, d_month = 3, d_day = 1\<rparr>"
    by (simp add: period_start_def march_def)
  have ti: "spec_total example_db (u_id ?u) ''income'' start = Fixed 50000"
    and te: "spec_total example_db (u_id ?u) ''expense'' start = Fixed 20000"
    unfolding s by (simp_all add: spec_total_def example_db_def on_or_after_def march_def zero_numeric_def)
  from d i e b ti te show ?thesis by simp
qed

text \<open>
  C2 (the code at the failing input). The source chooses the start date for "all" so as "to
  capture all transactions" (line 293), and the date field of add_transaction accepts every
  date of the calendar (line 411). An expense of 15.00 dated 31 December 1969 is stored, and
  the dashboard for the period "all" leaves it out: its window starts on 1 January 1970, its
  total expense is 200.00 where the user's expenses add up to 215.00, and the balance is
  1300.00 instead of 1285.00.
\<close>

theorem all_period_misses_early_expense:
  "add_transaction example_db (Some 1) early_form (march 5)
     = (early_db, [Tx_added], Redirect Dashboard)
   \<and> period_start ''all'' (dt_date (march 20)) = Inr \<lparr>d_year = 1970, d_month = 1, d_day = 1\<rparr>
   \<and> (\<exists>pg. dashboard early_db (Some 1) (Some ''all'') (dt_date (march 20))
              = (early_db, [], Dashboard_page pg)
          \<and> p_total_income pg = Fixed 50000
          \<and> p_total_expense pg = Fixed 20000
          \<and> p_balance pg = Fixed 130000)
   \<and> sum_list (map t_amount (filter (\<lambda>t. t_user_id t = 1 \<and> t_type t = ''expense'')
        (transactions early_db))) = Fixed 21500"
proof -
  let ?u = "hd (users early_db)"
  let ?start = "\<lparr>d_year = 1970, d_month = 1, d_day = 1\<rparr>"
  have a: "add_transaction example_db (Some 1) early_form (march 5)
     = (early_db, [Tx_added], Redirect Dashboard)"
    by (simp add: add_transaction_def early_form_def early_db_def eval_handler Let_def
        strptime_ymd_def month_text_def day_text_def valid_date_def days_in_month_def)
  have w: "wf_db early_db"
    by (simp add: wf_db_def early_db_def example_db_def int4_max_def in_column_def)
  have u: "current_user early_db (Some 1) = Some ?u" "u_initial_balance ?u = Some (Fixed 100000)"
    by (simp_all add: current_user_def early_db_def example_db_def)
  have st: "period_start ''all'' (dt_date (march 20)) = Inr ?start"
    by (simp add: period_start_def)
  have ti: "spec_total early_db (u_id ?u) ''income'' ?start = Fixed 50000"
    and te: "spec_total early_db (u_id ?u) ''expense'' ?start = Fixed 20000"
    by (simp_all add: spec_total_def early_db_def example_db_def on_or_after_def march_def
        zero_numeric_def)
  from dashboard_page_totals [OF w u, of "Some ''all''" "dt_date (march 20)" ?start] st ti te
  have d: "\<exists>pg. dashboard early_db (Some 1) (Some ''all'') (dt_date (march 20))
              = (early_db, [], Dashboard_page pg)
          \<and> p_total_income pg = Fixed 50000
          \<and> p_total_expense pg = Fixed 20000
          \<and> p_balance pg = Fixed 130000"
    by auto
  have e: "sum_list (map t_amount (filter (\<lambda>t. t_user_id t = 1 \<and> t_type t = ''expense'')
        (transactions early_db))) = Fixed 21500"
    by (simp add: early_db_def example_db_def zero_numeric_def)
  from a st d e show ?thesis by blast
qed

lemma top_sorted:
  fixes f :: "'a \<Rightarrow> 'b::linorder" and xs :: "'a list" and n :: nat
  defines "ys \<equiv> rev (sort_key f xs)"
  shows "length (take n ys) = min n (length xs)"
    and "sorted_wrt (\<lambda>a b. f b \<le> f a) (take n ys)"
    and "mset (take n ys) \<subseteq># mset xs"
    and "\<forall>x \<in># mset xs - mset (take n ys). \<forall>y \<in> set (take n ys). f x \<le> f y"
proof -
  have "sorted (map f (sort_key f xs))" by (rule sorted_sort_key)
  then have "sorted_wrt (\<lambda>a b. f a \<le> f b) (sort_key f xs)" by (simp add: sorted_map)
  then have s: "sorted_wrt (\<lambda>a b. f b \<le> f a) ys" by (simp add: ys_def sorted_wrt_rev)
  have m: "mset xs = mset (take n ys) + mset (drop n ys)"
    by (simp add: ys_def flip: mset_append)
  show "length (take n ys) = min n (length xs)" by (simp add: ys_def min.commute)
  from s show "sorted_wrt (\<lambda>a b. f b \<le> f a) (take n ys)" by (rule sorted_wrt_take)
  from m show "mset (take n ys) \<subseteq># mset xs" by simp
  from s have "sorted_wrt (\<lambda>a b. f b \<le> f a) (take n ys @ drop n ys)" by simp
  then have "\<forall>y \<in> set (take n ys). \<forall>x \<in> set (drop n ys). f x \<le> f y"
    unfolding sorted_wrt_append by blast
  moreover from m have "mset xs - mset (take n ys) = mset (drop n ys)" by simp
  ultimately show "\<forall>x \<in># mset xs - mset (take n ys). \<forall>y \<in> set (take n ys). f x \<le> f y"
    by auto
qed

lemma expense_candidates:
  "filter (\<lambda>t. t_type t = ''expense'')
     (filter (\<lambda>t. t_user_id t = uid \<and> dt_ge (t_created_at t) \<lparr>dt_date = start, dt_time = 0\<rparr>) txs)
   = filter (\<lambda>t. t_user_id t = uid \<and> t_type t = ''expense'' \<and> on_or_after start t) txs"
  by (auto simp: dt_ge_midnight intro: filter_cong)

lemma expense_candidates_merged:
  "filter (\<lambda>t. t_user_id t = uid \<and> dt_ge (t_created_at t) \<lparr>dt_date = start, dt_time = 0\<rparr>
                \<and> t_type t = ''expense'') txs
   = filter (\<lambda>t. t_user_id t = uid \<and> t_type t = ''expense'' \<and> on_or_after start t) txs"
  by (auto simp: dt_ge_midnight intro: filter_cong)

lemma dashboard_page_top:
  assumes "current_user s sess = Some u" "u_initial_balance u = Some b"
    and "period_start (case period of None \<Rightarrow> ''month'' | Some p \<Rightarrow> p) today = Inr start"
  shows "\<exists>pg. dashboard s sess period today = (s, [], Dashboard_page pg)
      \<and> p_top_expenses pg = take 5 (rev (sort_key t_amount
           (filter (\<lambda>t. t_user_id t = u_id u \<and> t_type t = ''expense'' \<and> on_or_after start t)
              (transactions s))))"
  using assms by (simp add: dashboard_def Let_def expense_candidates_merged)

text \<open>
  C4. For a logged-in user whose initial balance is set and every period selector, the
  list of top expenses on the dashboard page has at most 5 entries (exactly 5 when there are
  at least 5 candidates), is in descending order of amount, consists of candidates only,
  each no more often than it is stored, where the candidates are the user's transactions of
  type expense with a timestamp on or after the start date of the period, and every
  candidate left out has an amount no larger than every entry: the entries are the largest.
\<close>

theorem dashboard_top_expenses:
  assumes "current_user s sess = Some u" "u_initial_balance u = Some b"
    and "valid_date today" "7 < toordinal today"
  shows "\<exists>start pg.
      period_start (case period of None \<Rightarrow> ''month'' | Some p \<Rightarrow> p) today = Inr start
    \<and> dashboard s sess period today = (s, [], Dashboard_page pg)
    \<and> length (p_top_expenses pg)
        = min 5 (length (filter (\<lambda>t. t_user_id t = u_id u \<and> t_type t = ''expense''
                                     \<and> on_or_after start t) (transactions s)))
    \<and> sorted_wrt (\<lambda>x y. t_amount y \<le> t_amount x) (p_top_expenses pg)
    \<and> mset (p_top_expenses pg)
        \<subseteq># mset (filter (\<lambda>t. t_user_id t = u_id u \<and> t_type t = ''expense''
                                \<and> on_or_after start t) (transactions s))
    \<and> (\<forall>x \<in># mset (filter (\<lambda>t. t_user_id t = u_id u \<and> t_type t = ''expense''
                                   \<and> on_or_after start t) (transactions s))
               - mset (p_top_expenses pg).
          \<forall>y \<in> set (p_top_expenses pg). t_amount x \<le> t_amount y)"
proof -
  from period_start_total [OF assms(3,4)] obtain start
    where st: "period_start (case period of None \<Rightarrow> ''month'' | Some p \<Rightarrow> p) today = Inr start"
    by blast
  let ?c = "filter (\<lambda>t. t_user_id t = u_id u \<and> t_type t = ''expense'' \<and> on_or_after start t)
      (transactions s)"
  have "\<exists>pg. dashboard s sess period today = (s, [], Dashboard_page pg)
      \<and> p_top_expenses pg = take 5 (rev (sort_key t_amount ?c))"
    using assms(1,2) st by (simp add: dashboard_def Let_def expense_candidates_merged)
  then obtain pg where d: "dashboard s sess period today = (s, [], Dashboard_page pg)"
    and top: "p_top_expenses pg = take 5 (rev (sort_key t_amount ?c))"
    by blast
  note t = top_sorted [where f = t_amount and xs = ?c and n = 5, folded top]
  from st d t show ?thesis by blast
qed

theorem dashboard_top_expenses_witness:
  "\<exists>pg. dashboard expenses_db (Some 1) (Some ''month'') (dt_date (march 20))
          = (expenses_db, [], Dashboard_page pg)
      \<and> length (p_top_expenses pg) = 5
      \<and> sorted_wrt (\<lambda>x y. t_amount y \<le> t_amount x) (p_top_expenses pg)
      \<and> map t_amount (p_top_expenses pg)
          = [Fixed 700, Fixed 600, Fixed 500, Fixed 400, Fixed 300]"
proof -
  let ?u = "hd (users expenses_db)"
  let ?today = "dt_date (march 20)"
  have u: "current_user expenses_db (Some 1) = Some ?u" "u_initial_balance ?u = Some (Fixed 100000)"
    by (simp_all add: current_user_def expenses_db_def example_db_def)
  have v: "valid_date ?today" by (simp add: march_def valid_date_def days_in_month_def)
  have o: "7 < toordinal ?today"
    by (simp add: march_def toordinal_def days_before_year_def days_before_month_def
        days_in_month_def is_leap_def upto.simps [of 1])
  from dashboard_top_expenses [OF u v o, of "Some ''month''"]
  obtain start pg where st: "period_start ''month'' ?today = Inr start"
    and d: "dashboard expenses_db (Some 1) (Some ''month'') ?today
        = (expenses_db, [], Dashboard_page pg)"
    and l: "length (p_top_expenses pg)
        = min 5 (length (filter (\<lambda>t. t_user_id t = u_id ?u \<and> t_type t = ''expense''
                                     \<and> on_or_after start t) (transactions expenses_db)))"
    and so: "sorted_wrt (\<lambda>x y. t_amount y \<le> t_amount x) (p_top_expenses pg)"
    by auto
  from st have s: "start = \<lparr>d_year = 2024, d_month = 3, d_day = 1\<rparr>"
    by (simp add: period_start_def march_def)
  have "length (filter (\<lambda>t. t_user_id t = u_id ?u \<and> t_type t = ''expense''
                            \<and> on_or_after start t) (transactions expenses_db)) = 7"
    unfolding s by (simp add: expenses_db_def example_db_def on_or_after_def march_def)
  with l have l5: "length (p_top_expenses pg) = 5" by simp
  from dashboard_page_top [OF u, of "Some ''month''" ?today start] st d
  have "p_top_expenses pg = take 5 (rev (sort_key t_amount
      (filter (\<lambda>t. t_user_id t = u_id ?u \<and> t_type t = ''expense'' \<and> on_or_after start t)
         (transactions expenses_db))))"
    by simp
  then have "map t_amount (p_top_expenses pg)
          = [Fixed 700, Fixed 600, Fixed 500, Fixed 400, Fixed 300]"
    unfolding s
    by (simp add: expenses_db_def example_db_def on_or_after_def march_def sort_key_def)
  with d l5 so show ?thesis by simp
qed

section \<open>Every handler keeps the stored state within the schema\<close>

text \<open>The hypothesis \<open>wf_db\<close> of the theorems above holds of every state the handlers
  reach from a state that satisfies it, whatever the requests.\<close>

lemma numeric_14_2_range: "numeric_14_2 d = Inr c \<Longrightarrow> in_column c"
proof (cases d)
  case (Finite neg co e)
  assume "numeric_14_2 d = Inr c"
  with Finite obtain m :: nat where "m < 10 ^ 14" "c = Fixed (if neg then - int m else int m)"
    by (auto simp: numeric_14_2_def Let_def split: if_splits)
  then show ?thesis by (auto simp: in_column_def nat_less_iff)
next
  case (Infinite neg)
  assume "numeric_14_2 d = Inr c"
  with Infinite show ?thesis by (auto simp: numeric_14_2_def in_column_def)
next
  case (NaN sg sn p)
  assume "numeric_14_2 d = Inr c"
  with NaN show ?thesis by (auto simp: numeric_14_2_def in_column_def)
qed

lemma wf_set_balance:
  assumes "wf_db s" "in_column b"
  shows "wf_db (s\<lparr>users := map (\<lambda>x. if u_id x = k then x\<lparr>u_initial_balance := Some b\<rparr> else x)
                   (users s)\<rparr>)"
proof -
  let ?f = "\<lambda>x. if u_id x = k then x\<lparr>u_initial_balance := Some b\<rparr> else x"
  have e: "u_id \<circ> ?f = u_id" by (rule ext) simp
  from assms show ?thesis by (auto simp: wf_db_def list_all_iff e)
qed

lemma wf_setup_balance: "wf_db s \<Longrightarrow> wf_db (fst (setup_balance s sess m f))"
  by (auto simp: setup_balance_def unauthorized_def wf_set_balance
      split: option.splits sum.splits dest: numeric_14_2_range)

lemma wf_insert:
  assumes "wf_db s" "in_column (t_amount tx)" "t_id tx = tx_seq s + 1" "tx_seq s < int4_max"
  shows "wf_db (s\<lparr>transactions := transactions s @ [tx], tx_seq := tx_seq s + 1\<rparr>)"
  using assms by (fastforce simp: wf_db_def list_all_iff)

lemma wf_add_transaction: "wf_db s \<Longrightarrow> wf_db (fst (add_transaction s sess form now))"
  by (auto simp: add_transaction_def unauthorized_def Let_def
      split: option.splits sum.splits dest: numeric_14_2_range intro!: wf_insert)

lemma wf_update:
  assumes "wf_db s" "\<And>t. t_id (g t) = t_id t" "\<And>t. in_column (t_amount (g t))"
  shows "wf_db (s\<lparr>transactions := map (\<lambda>t. if t_id t = k then g t else t) (transactions s)\<rparr>)"
proof -
  let ?f = "\<lambda>t. if t_id t = k then g t else t"
  have e: "t_id \<circ> ?f = t_id" using assms(2) by (intro ext) simp
  from assms show ?thesis by (auto simp: wf_db_def list_all_iff e)
qed

lemma wf_edit_transaction: "wf_db s \<Longrightarrow> wf_db (fst (edit_transaction s sess i m form))"
proof -
  assume wf: "wf_db s"
  have u: "wf_db (s\<lparr>transactions :=
      map (\<lambda>t. if t_id t = k
                then t\<lparr>t_type := ty, t_amount := c, t_category_id := cat,
                       t_description := de, t_created_at := da\<rparr>
                else t) (transactions s)\<rparr>)" if "in_column c" for k ty c cat de da
    using wf that
    by (intro wf_update [where g = "\<lambda>t. t\<lparr>t_type := ty, t_amount := c, t_category_id := cat,
          t_description := de, t_created_at := da\<rparr>"]) simp_all
  show ?thesis
    using wf
    by (auto simp: edit_transaction_def unauthorized_def Let_def u
        split: option.splits sum.splits dest: numeric_14_2_range)
qed

lemma wf_delete_transaction: "wf_db s \<Longrightarrow> wf_db (fst (delete_transaction s sess i))"
  by (auto simp: delete_transaction_def unauthorized_def wf_db_def list_all_iff distinct_map_filter
      split: option.splits)

lemma wf_dashboard: "wf_db s \<Longrightarrow> wf_db (fst (dashboard s sess p today))"
  by (auto simp: dashboard_def unauthorized_def Let_def split: option.splits sum.splits)

lemma wf_handle: "wf_db s \<Longrightarrow> wf_db (fst (handle s r))"
  by (cases r)
    (simp_all add: wf_setup_balance wf_dashboard wf_add_transaction wf_edit_transaction
      wf_delete_transaction)

lemma wf_run: "wf_db s \<Longrightarrow> wf_db (run s rs)"
  by (induction rs arbitrary: s) (simp_all add: wf_handle)

end
